theory Spec2Isabelle
  imports Main
begin

section \<open>JavaScript values and string primitives\<close>

text \<open>
  The extension is JavaScript. Numbers that the modelled code reads are integers
  (weights, thresholds, millisecond timestamps, tab ids); a field that may be missing
  from an object is an \<open>option\<close>, \<open>None\<close> standing for \<open>undefined\<close>. Strings are
  \<open>string\<close>; the empty string is the only falsy string, and it also stands for a
  string-valued field that is missing, since the code only ever tests such fields for
  truthiness.
\<close>

text \<open>\<open>x || d\<close> on a number that may be missing: \<open>undefined\<close> and \<open>0\<close> are both falsy.\<close>

definition js_or :: "int option \<Rightarrow> int \<Rightarrow> int" where
  "js_or x d = (case x of None \<Rightarrow> d | Some v \<Rightarrow> if v = 0 then d else v)"

text \<open>\<open>String.prototype.toLowerCase\<close> on the ASCII range (host names are ASCII).\<close>

definition lowerChar :: "char \<Rightarrow> char" where
  "lowerChar c =
     (case map_of (zip ''ABCDEFGHIJKLMNOPQRSTUVWXYZ'' ''abcdefghijklmnopqrstuvwxyz'') c of
        Some l \<Rightarrow> l
      | None \<Rightarrow> c)"

definition toLowerCase :: "string \<Rightarrow> string" where
  "toLowerCase s = map lowerChar s"

text \<open>\<open>String.prototype.trim\<close>: the ASCII white space characters.\<close>

definition isSpace :: "char \<Rightarrow> bool" where
  "isSpace c = (c \<in> set [CHR 0x09, CHR 0x0A, CHR 0x0B, CHR 0x0C, CHR 0x0D, CHR '' ''])"

definition trim :: "string \<Rightarrow> string" where
  "trim s = rev (dropWhile isSpace (rev (dropWhile isSpace s)))"

text \<open>\<open>s.replace(/^\.+|\.+$/g, "")\<close>: the leading and the trailing run of dots go.\<close>

definition stripDots :: "string \<Rightarrow> string" where
  "stripDots s =
     rev (dropWhile (\<lambda>c. c = CHR ''.'') (rev (dropWhile (\<lambda>c. c = CHR ''.'') s)))"

text \<open>\<open>s.includes(pat)\<close> and \<open>s.endsWith(suf)\<close>.\<close>

fun includesStr :: "string \<Rightarrow> string \<Rightarrow> bool" where
  "includesStr [] pat = (pat = [])"
| "includesStr (c # cs) pat = (take (length pat) (c # cs) = pat \<or> includesStr cs pat)"

definition endsWith :: "string \<Rightarrow> string \<Rightarrow> bool" where
  "endsWith s suf = (length suf \<le> length s \<and> drop (length s - length suf) s = suf)"

text \<open>A number inside a template literal: the decimal digits of an integer.\<close>

fun showNat :: "nat \<Rightarrow> string" where
  "showNat n =
     (if n < 10 then [''0123456789'' ! n]
      else showNat (n div 10) @ [''0123456789'' ! (n mod 10)])"

declare showNat.simps [simp del]

definition showInt :: "int \<Rightarrow> string" where
  "showInt i = (if i < 0 then CHR ''-'' # showNat (nat (- i)) else showNat (nat i))"

section \<open>The platform's URL parser\<close>

text \<open>
  \<open>new URL(s)\<close> is the browser's parser, not code of the extension: it is a parameter
  of the model. \<open>None\<close> is the \<open>TypeError\<close> it throws on a string that is no URL.
\<close>

record url =
  protocol :: string
  hostname :: string

type_synonym url_parser = "string \<Rightarrow> url option"

definition hostFromUrl :: "url_parser \<Rightarrow> string \<Rightarrow> string" where
  "hostFromUrl parse u = (case parse u of None \<Rightarrow> [] | Some v \<Rightarrow> toLowerCase (hostname v))"

definition isHttpUrl :: "url_parser \<Rightarrow> string \<Rightarrow> bool" where
  "isHttpUrl parse u =
     (case parse u of
        None \<Rightarrow> False
      | Some v \<Rightarrow> protocol v = ''http:'' \<or> protocol v = ''https:'')"

section \<open>Host lists: suffix-aware membership\<close>

definition normalizeHostEntry :: "url_parser \<Rightarrow> string \<Rightarrow> string" where
  "normalizeHostEntry parse input =
     (let s = trim input in
      if s = [] then []
      else if includesStr s ''://'' then
        (case parse s of
           Some v \<Rightarrow> toLowerCase (hostname v)
         | None \<Rightarrow> toLowerCase input)
      else toLowerCase (stripDots s))"

definition hostMatchesEntry :: "url_parser \<Rightarrow> string \<Rightarrow> string \<Rightarrow> bool" where
  "hostMatchesEntry parse host entry =
     (let h = toLowerCase host; e = normalizeHostEntry parse entry in
      if h = [] \<or> e = [] then False
      else h = e \<or> endsWith h (''.'' @ e))"

definition isHostInList :: "url_parser \<Rightarrow> string \<Rightarrow> string list \<Rightarrow> bool" where
  "isHostInList parse host list = list_ex (hostMatchesEntry parse (toLowerCase host)) list"

section \<open>Profiles, rules and the classification context\<close>

text \<open>
  A profile as the engine reads it (\<open>name\<close> and \<open>trackUsers\<close> are never read by the
  modelled code). \<open>pid\<close> is the field \<open>id\<close>. A missing list is the empty list
  (\<open>profile.allowList || []\<close>), a missing weight table the empty map.
\<close>

record profile =
  pid :: string
  allowList :: "string list"
  blockList :: "string list"
  trackPrompts :: string
  requireAdminPinAboveThreshold :: bool
  riskThreshold :: "int option"
  sensitiveFieldWeights :: "string \<rightharpoonup> int"
  aiOnPageWeight :: "int option"
  aiDomainWeight :: "int option"
  internalSiteWeight :: "int option"

record rules_doc =
  selectedProfileId :: string
  profiles :: "profile list"
  adminPin :: string

record ctx =
  isAiDomain :: bool
  aiUiSignals :: "string list"
  sensitiveFields :: "string \<rightharpoonup> int"
  isInternalSite :: bool
  blocklisted :: bool

definition getActiveProfileSync :: "rules_doc option \<Rightarrow> profile option" where
  "getActiveProfileSync rulesObj =
     (case rulesObj of
        None \<Rightarrow> None
      | Some r \<Rightarrow>
          (let selectedId = (if selectedProfileId r = [] then ''confirm'' else selectedProfileId r) in
           case find (\<lambda>p. pid p = selectedId) (profiles r) of
             Some p \<Rightarrow> Some p
           | None \<Rightarrow> (case profiles r of [] \<Rightarrow> None | p # _ \<Rightarrow> Some p)))"

section \<open>The risk scorer\<close>

definition sensitiveKinds :: "string list" where
  "sensitiveKinds = [''password'', ''email'', ''credit'', ''id'']"

definition computeRiskScore :: "ctx \<Rightarrow> profile \<Rightarrow> int" where
  "computeRiskScore c p =
     (let sw = sensitiveFieldWeights p;
          aiOnPageW = js_or (aiOnPageWeight p) 0;
          aiDomainW = js_or (aiDomainWeight p) 0;
          internalW = js_or (internalSiteWeight p) 0;
          s1 = (if isAiDomain c then 0 + aiDomainW else 0);
          s2 = (if aiUiSignals c \<noteq> [] then s1 + aiOnPageW else s1);
          s3 = (if isInternalSite c then s2 + internalW else s2);
          s4 = foldl (\<lambda>score k.
                  if js_or (sensitiveFields c k) 0 > 0 then score + js_or (sw k) 0 else score)
                s3 sensitiveKinds
      in min 100 s4)"

section \<open>The log\<close>

text \<open>
  What the handlers pass to \<open>appendLog\<close>, one constructor for each \<open>kind\<close>. The two
  optional fields of a prompt entry are its \<open>hash\<close> and its \<open>text\<close>.
\<close>

datatype log_entry =
    PolicyReprompt string int string string
  | DomainDetected string int string string bool
  | UiDetectedSuppressed string string
  | UiDetected string string "string list" "string \<rightharpoonup> int" int string bool
  | RouterDecisionLog string string string int string bool
  | PromptLog string string nat "string option" "string option"

fun entry_kind :: "log_entry \<Rightarrow> string" where
  "entry_kind (PolicyReprompt _ _ _ _) = ''policy_reprompt''"
| "entry_kind (DomainDetected _ _ _ _ _) = ''domain_detected''"
| "entry_kind (UiDetectedSuppressed _ _) = ''ui_detected_suppressed''"
| "entry_kind (UiDetected _ _ _ _ _ _ _) = ''ui_detected''"
| "entry_kind (RouterDecisionLog _ _ _ _ _ _) = ''router_decision''"
| "entry_kind (PromptLog _ _ _ _ _) = ''prompt''"

fun entry_risk :: "log_entry \<Rightarrow> int option" where
  "entry_risk (PolicyReprompt _ r _ _) = Some r"
| "entry_risk (DomainDetected _ r _ _ _) = Some r"
| "entry_risk (UiDetectedSuppressed _ _) = None"
| "entry_risk (UiDetected _ _ _ _ r _ _) = Some r"
| "entry_risk (RouterDecisionLog _ _ _ r _ _) = Some r"
| "entry_risk (PromptLog _ _ _ _ _) = None"

fun entry_hash :: "log_entry \<Rightarrow> string option" where
  "entry_hash (PromptLog _ _ _ h _) = h"
| "entry_hash _ = None"

fun entry_text :: "log_entry \<Rightarrow> string option" where
  "entry_text (PromptLog _ _ _ _ t) = t"
| "entry_text _ = None"

text \<open>The stored record: \<open>{ ts, userRole, userId, ...entry }\<close>. \<open>ts\<close> is the clock
  reading in milliseconds (its ISO-8601 rendering is not modelled).\<close>

record log_payload =
  ts :: int
  userRole :: string
  userId :: string
  entry :: log_entry

section \<open>The service worker's state\<close>

text \<open>The directive sent to a tab (fields \<open>reason\<close>, \<open>context\<close>, \<open>risk\<close>, \<open>profileId\<close>),
  and the other message the worker sends to tabs.\<close>

record directive =
  d_reason :: string
  d_context :: ctx
  d_risk :: int
  d_profileId :: string

datatype tab_message = OPEN_ROUTER directive | RULES_UPDATED

text \<open>
  The worker's caches, the part of \<open>chrome.storage.local\<close> it reads and writes
  (\<open>rules\<close>, \<open>customDomains\<close>, \<open>logs\<close>, \<open>userRole\<close>, \<open>userId\<close>), and the trace of the
  calls of \<open>chrome.tabs.sendMessage\<close>: the tab id and the message, oldest first.
\<close>

record sw_state =
  aiDomainsCache :: "string list"
  rulesCache :: "rules_doc option"
  lastOpenMap :: "string \<rightharpoonup> int"
  consentMap :: "string \<rightharpoonup> int"
  stored_rules :: "rules_doc option"
  stored_customDomains :: "string list"
  stored_logs :: "log_payload list"
  stored_userRole :: string
  stored_userId :: string
  tabMessages :: "(int \<times> tab_message) list"

definition OPEN_COOLDOWN_MS :: int where
  "OPEN_COOLDOWN_MS = 5000"

definition CONSENT_TTL_MS :: int where
  "CONSENT_TTL_MS = 10 * 60 * 1000"

text \<open>The cache key \<open>`${tabId}|${host}`\<close>.\<close>

definition cacheKey :: "int \<Rightarrow> string \<Rightarrow> string" where
  "cacheKey tabId host = showInt tabId @ ''|'' @ host"

section \<open>Prompt admission: \<open>shouldOpenRouter\<close>\<close>

text \<open>
  \<open>now\<close> is the value of \<open>Date.now()\<close> read by the call. \<open>tabId\<close> is \<open>None\<close> for
  \<open>null\<close> or \<open>undefined\<close>. The consent map stores \<open>allowedUntil\<close>. The result is the
  returned boolean and the state after the call.
\<close>

definition consentActive :: "sw_state \<Rightarrow> string \<Rightarrow> int \<Rightarrow> bool" where
  "consentActive s key now =
     (case consentMap s key of None \<Rightarrow> False | Some allowedUntil \<Rightarrow> allowedUntil > now)"

definition shouldOpenRouter :: "int \<Rightarrow> int option \<Rightarrow> string \<Rightarrow> sw_state \<Rightarrow> bool \<times> sw_state" where
  "shouldOpenRouter now tabId host s =
     (case tabId of
        None \<Rightarrow> (False, s)
      | Some t \<Rightarrow>
          if host = [] then (False, s)
          else
            (let key = cacheKey t host in
             if consentActive s key now then (False, s)
             else
               (let last = js_or (lastOpenMap s key) 0 in
                if now - last < OPEN_COOLDOWN_MS then (False, s)
                else (True, s\<lparr>lastOpenMap := (lastOpenMap s)(key \<mapsto> now)\<rparr>))))"

text \<open>A state with empty caches, empty storage and an empty trace.\<close>

definition emptyState :: sw_state where
  "emptyState =
     \<lparr>aiDomainsCache = [], rulesCache = None, lastOpenMap = Map.empty,
      consentMap = Map.empty, stored_rules = None, stored_customDomains = [],
      stored_logs = [], stored_userRole = [], stored_userId = [], tabMessages = []\<rparr>"

section \<open>The score in the specification's words, and example inputs\<close>

text \<open>
  The score in the words of the specification: the sum of the weight of each signal
  that is present.
\<close>

definition specWeightedSum :: "ctx \<Rightarrow> profile \<Rightarrow> int" where
  "specWeightedSum c p =
     (if isAiDomain c then js_or (aiDomainWeight p) 0 else 0)
     + (if aiUiSignals c \<noteq> [] then js_or (aiOnPageWeight p) 0 else 0)
     + (if isInternalSite c then js_or (internalSiteWeight p) 0 else 0)
     + (\<Sum>k\<leftarrow>sensitiveKinds.
          if js_or (sensitiveFields c k) 0 > 0 then js_or (sensitiveFieldWeights p k) 0 else 0)"

definition nonNegativeWeights :: "profile \<Rightarrow> bool" where
  "nonNegativeWeights p =
     (0 \<le> js_or (aiDomainWeight p) 0 \<and> 0 \<le> js_or (aiOnPageWeight p) 0
      \<and> 0 \<le> js_or (internalSiteWeight p) 0
      \<and> list_all (\<lambda>k. 0 \<le> js_or (sensitiveFieldWeights p k) 0) sensitiveKinds)"

text \<open>A profile whose AI-domain weight is negative, and a context on an AI domain.\<close>

definition discountProfile :: profile where
  "discountProfile =
     \<lparr>pid = ''confirm'', allowList = [], blockList = [], trackPrompts = ''off'',
      requireAdminPinAboveThreshold = False, riskThreshold = Some 70,
      sensitiveFieldWeights = Map.empty, aiOnPageWeight = Some 30,
      aiDomainWeight = Some (- 5), internalSiteWeight = Some 0\<rparr>"

definition aiDomainCtx :: ctx where
  "aiDomainCtx =
     \<lparr>isAiDomain = True, aiUiSignals = [], sensitiveFields = Map.empty,
      isInternalSite = False, blocklisted = False\<rparr>"

text \<open>A profile with positive weights, and a context in which every signal is present.\<close>

definition strictProfile :: profile where
  "strictProfile =
     \<lparr>pid = ''strict'', allowList = [''intranet.example.com''], blockList = [''blocked.example.com''],
      trackPrompts = ''anonymized'', requireAdminPinAboveThreshold = True,
      riskThreshold = Some 70,
      sensitiveFieldWeights = [''password'' \<mapsto> 30, ''email'' \<mapsto> 10, ''credit'' \<mapsto> 30, ''id'' \<mapsto> 20],
      aiOnPageWeight = Some 30, aiDomainWeight = Some 40, internalSiteWeight = Some 20\<rparr>"

definition busyCtx :: ctx where
  "busyCtx =
     \<lparr>isAiDomain = True, aiUiSignals = [''[data-ai]''],
      sensitiveFields = [''password'' \<mapsto> 1, ''email'' \<mapsto> 2, ''credit'' \<mapsto> 0, ''id'' \<mapsto> 0],
      isInternalSite = False, blocklisted = False\<rparr>"

section \<open>The platform around the service worker\<close>

text \<open>
  What the browser supplies and the extension does not implement: the URL parser, the
  SHA-256 digest of \<open>crypto.subtle\<close> (as the hexadecimal string \<open>sha256\<close> builds from
  it), the identifier \<open>crypto.randomUUID()\<close> returns, and the two packaged JSON files
  (\<open>None\<close> when the \<open>fetch\<close> fails).
\<close>

record platform =
  parseUrl :: url_parser
  digest :: "string \<Rightarrow> string"
  randomUUID :: string
  packagedDefaults :: "rules_doc option"
  packagedDomains :: "string list option"

text \<open>
  What one run of a handler reads from the outside: \<open>Date.now()\<close> inside
  \<open>shouldOpenRouter\<close>, the outcome of the first \<open>chrome.tabs.sendMessage\<close> attempt, and
  the clock when \<open>appendLog\<close> stamps the entry.
\<close>

datatype send_result = Delivered | NoReceiver | OtherError

record tick =
  tk_now :: int
  tk_sendResult :: send_result
  tk_logTime :: int

record tab =
  tab_id :: "int option"
  tab_url :: string

section \<open>\<open>isInternal\<close>\<close>

text \<open>
  The two regular expressions of \<open>isInternal\<close>, \<open>/\b(corp|intranet|internal)\b/\<close> and
  \<open>/\.local\b/\<close>, as scans of the host name. A word character is a letter, a digit or
  an underscore; \<open>prevWord\<close> tells whether the character before the scan position is one.
\<close>

definition isWordChar :: "char \<Rightarrow> bool" where
  "isWordChar c =
     (c \<in> set ''abcdefghijklmnopqrstuvwxyzABCDEFGHIJKLMNOPQRSTUVWXYZ0123456789_'')"

definition startsWith :: "string \<Rightarrow> string \<Rightarrow> bool" where
  "startsWith s w = (take (length w) s = w)"

definition boundaryAfter :: "string \<Rightarrow> string \<Rightarrow> bool" where
  "boundaryAfter s w = (case drop (length w) s of [] \<Rightarrow> True | c # _ \<Rightarrow> \<not> isWordChar c)"

fun matchWord :: "string list \<Rightarrow> bool \<Rightarrow> string \<Rightarrow> bool" where
  "matchWord ws prevWord [] = False"
| "matchWord ws prevWord (c # cs) =
     ((\<not> prevWord \<and> list_ex (\<lambda>w. startsWith (c # cs) w \<and> boundaryAfter (c # cs) w) ws)
      \<or> matchWord ws (isWordChar c) cs)"

fun matchDotLocal :: "string \<Rightarrow> bool" where
  "matchDotLocal [] = False"
| "matchDotLocal (c # cs) =
     ((startsWith (c # cs) ''.local'' \<and> boundaryAfter (c # cs) ''.local'') \<or> matchDotLocal cs)"

definition isInternal :: "platform \<Rightarrow> string \<Rightarrow> bool" where
  "isInternal pf u =
     (case parseUrl pf u of
        None \<Rightarrow> False
      | Some v \<Rightarrow>
          matchWord [''corp'', ''intranet'', ''internal''] False (hostname v)
          \<or> matchDotLocal (hostname v))"

section \<open>Boot, rule refresh and the log sink\<close>

text \<open>\<open>Array.from(new Set(xs))\<close>: the first occurrence of each element, in order.\<close>

definition uniqueInOrder :: "string list \<Rightarrow> string list" where
  "uniqueInOrder xs = rev (remdups (rev xs))"

definition ensureBoot :: "platform \<Rightarrow> sw_state \<Rightarrow> sw_state" where
  "ensureBoot pf s =
     (case (packagedDefaults pf, packagedDomains pf) of
        (Some defaults, Some packaged) \<Rightarrow>
          (let s1 = (case stored_rules s of
                       None \<Rightarrow> s\<lparr>stored_rules := Some defaults, rulesCache := Some defaults\<rparr>
                     | Some r \<Rightarrow> s\<lparr>rulesCache := Some r\<rparr>)
           in s1\<lparr>aiDomainsCache := uniqueInOrder (stored_customDomains s1 @ packaged)\<rparr>)
      | _ \<Rightarrow> s)"

text \<open>The statement \<open>if (!aiDomainsCache?.length) await ensureBoot();\<close>.\<close>

definition bootIfEmpty :: "platform \<Rightarrow> sw_state \<Rightarrow> sw_state" where
  "bootIfEmpty pf s = (if aiDomainsCache s = [] then ensureBoot pf s else s)"

text \<open>\<open>const { rules } = await getLocal(["rules"]); if (rules) rulesCache = rules;\<close>\<close>

definition refreshRules :: "sw_state \<Rightarrow> sw_state" where
  "refreshRules s = (case stored_rules s of None \<Rightarrow> s | Some r \<Rightarrow> s\<lparr>rulesCache := Some r\<rparr>)"

text \<open>\<open>appendLog\<close>, with \<open>getOrCreateUserId\<close> storing a fresh identifier when none is stored.\<close>

definition appendLog :: "platform \<Rightarrow> int \<Rightarrow> log_entry \<Rightarrow> sw_state \<Rightarrow> sw_state" where
  "appendLog pf t e s =
     (let s1 = (if stored_userId s = [] then s\<lparr>stored_userId := randomUUID pf\<rparr> else s);
          payload = \<lparr>ts = t, userRole = stored_userRole s, userId = stored_userId s1, entry = e\<rparr>
      in s1\<lparr>stored_logs := stored_logs s @ [payload]\<rparr>)"

section \<open>Gating helpers\<close>

definition isAiDomainHost :: "platform \<Rightarrow> sw_state \<Rightarrow> string \<Rightarrow> bool" where
  "isAiDomainHost pf s host = isHostInList (parseUrl pf) host (aiDomainsCache s)"

definition shouldPromptForProfile :: "profile option \<Rightarrow> bool \<Rightarrow> bool" where
  "shouldPromptForProfile prof isBlocklisted =
     (case prof of
        None \<Rightarrow> True
      | Some p \<Rightarrow> if pid p = ''allow'' then isBlocklisted else True)"

text \<open>
  \<open>safeOpenRouter\<close>: nothing for a URL that is not http(s); otherwise one send, and a
  second one when the first reports that the receiving end does not exist.
\<close>

definition safeOpenRouter ::
  "platform \<Rightarrow> send_result \<Rightarrow> int \<Rightarrow> string \<Rightarrow> directive \<Rightarrow> sw_state \<Rightarrow> sw_state" where
  "safeOpenRouter pf res tabId tabUrl payload s =
     (if tabUrl = [] \<or> \<not> isHttpUrl (parseUrl pf) tabUrl then s
      else
        (let s1 = s\<lparr>tabMessages := tabMessages s @ [(tabId, OPEN_ROUTER payload)]\<rparr> in
         case res of
           Delivered \<Rightarrow> s1
         | NoReceiver \<Rightarrow> s1\<lparr>tabMessages := tabMessages s1 @ [(tabId, OPEN_ROUTER payload)]\<rparr>
         | OtherError \<Rightarrow> s1))"

section \<open>Trigger: re-evaluation after a policy change\<close>

text \<open>
  The body of the loop of \<open>forceReevaluateAndPrompt\<close> for one tab. \<open>prof\<close> is the
  profile resolved before the loop; with no profile the read of \<open>profile.allowList\<close>
  throws inside the \<open>try\<close> and the tab is skipped.
\<close>

definition reevaluateTab :: "platform \<Rightarrow> profile option \<Rightarrow> tick \<Rightarrow> tab \<Rightarrow> sw_state \<Rightarrow> sw_state" where
  "reevaluateTab pf prof tk t s =
     (case tab_id t of
        None \<Rightarrow> s
      | Some tid \<Rightarrow>
          if tid = 0 \<or> tab_url t = [] \<or> \<not> isHttpUrl (parseUrl pf) (tab_url t) then s
          else
            (let host = hostFromUrl (parseUrl pf) (tab_url t) in
             if host = [] \<or> \<not> isAiDomainHost pf s host then s
             else
               (case prof of
                  None \<Rightarrow> s
                | Some p \<Rightarrow>
                    (let allow = isHostInList (parseUrl pf) host (allowList p);
                         block = isHostInList (parseUrl pf) host (blockList p)
                     in
                     if allow then s
                     else
                       (let c = \<lparr>isAiDomain = True, aiUiSignals = [],
                                 sensitiveFields = Map.empty,
                                 isInternalSite = isInternal pf (tab_url t),
                                 blocklisted = block\<rparr>;
                            risk0 = computeRiskScore c p;
                            risk = (if block then 100 else risk0)
                        in
                        if \<not> shouldPromptForProfile (Some p) block then s
                        else
                          (case shouldOpenRouter (tk_now tk) (Some tid) host s of
                             (False, s1) \<Rightarrow> s1
                           | (True, s1) \<Rightarrow>
                               appendLog pf (tk_logTime tk)
                                 (PolicyReprompt (tab_url t) risk (pid p) host)
                                 (safeOpenRouter pf (tk_sendResult tk) tid (tab_url t)
                                    \<lparr>d_reason = (if block then ''This site is blocked by policy''
                                                 else ''AI domain detected''),
                                     d_context = c, d_risk = risk, d_profileId = pid p\<rparr>
                                    s1)))))))"

definition forceReevaluateAndPrompt :: "platform \<Rightarrow> (tick \<times> tab) list \<Rightarrow> sw_state \<Rightarrow> sw_state" where
  "forceReevaluateAndPrompt pf tabs s =
     (let s1 = refreshRules s;
          prof = getActiveProfileSync (rulesCache s1)
      in foldl (\<lambda>st (tk, t). reevaluateTab pf prof tk t st) s1 tabs)"

section \<open>Trigger: a tab finished loading\<close>

text \<open>
  The listener of \<open>chrome.tabs.onUpdated\<close>. \<open>status\<close> is \<open>changeInfo.status\<close>. With no
  profile the read of \<open>profile.allowList\<close> throws and the \<open>catch\<close> only logs a warning.
\<close>

definition tabsOnUpdated :: "platform \<Rightarrow> tick \<Rightarrow> int \<Rightarrow> string \<Rightarrow> tab \<Rightarrow> sw_state \<Rightarrow> sw_state" where
  "tabsOnUpdated pf tk tabId status t s =
     (if status \<noteq> ''complete'' \<or> tab_url t = [] then s
      else if \<not> isHttpUrl (parseUrl pf) (tab_url t) then s
      else
        (let s0 = bootIfEmpty pf s;
             host = hostFromUrl (parseUrl pf) (tab_url t)
         in
         if \<not> isAiDomainHost pf s0 host then s0
         else
           (let s1 = refreshRules s0 in
            case getActiveProfileSync (rulesCache s1) of
              None \<Rightarrow> s1
            | Some p \<Rightarrow>
                (let allow = isHostInList (parseUrl pf) host (allowList p);
                     block = isHostInList (parseUrl pf) host (blockList p)
                 in
                 if allow then s1
                 else
                   (let c = \<lparr>isAiDomain = True, aiUiSignals = [],
                             sensitiveFields = Map.empty,
                             isInternalSite = isInternal pf (tab_url t),
                             blocklisted = block\<rparr>;
                        risk0 = computeRiskScore c p;
                        risk = (if block then 100 else risk0)
                    in
                    if \<not> shouldPromptForProfile (Some p) block then s1
                    else
                      (case shouldOpenRouter (tk_now tk) (Some tabId) host s1 of
                         (False, s2) \<Rightarrow> s2
                       | (True, s2) \<Rightarrow>
                           appendLog pf (tk_logTime tk)
                             (DomainDetected (tab_url t) risk (pid p) host block)
                             (safeOpenRouter pf (tk_sendResult tk) tabId (tab_url t)
                                \<lparr>d_reason = (if block then ''This site is blocked by policy''
                                             else ''AI domain detected''),
                                 d_context = c, d_risk = risk, d_profileId = pid p\<rparr>
                                s2)))))))"

section \<open>The message hub\<close>

text \<open>
  The messages the worker receives. A missing string field is the empty string, a
  missing list the empty list, a missing table the empty map; \<open>isAiDomainFromContent\<close> is
  \<open>None\<close> unless it is a boolean.
\<close>

datatype runtime_message =
    AI_UI_DETECTED string "string list" "string \<rightharpoonup> int" "bool option"
  | ROUTER_DECISION string string string int string bool
  | PROMPT_ACTIVITY string string
  | REQUEST_AI_DOMAINS
  | GET_PROFILE
  | UnknownMessage

datatype response =
    Ok
  | Suppressed
  | HandlerError
  | Domains "string list"
  | ProfileReply "profile option"

text \<open>\<open>sender?.tab?.id\<close> and \<open>sender?.tab?.url\<close>; the sender's tab may be missing.\<close>

definition senderTabId :: "tab option \<Rightarrow> int option" where
  "senderTabId sender = (case sender of None \<Rightarrow> None | Some t \<Rightarrow> tab_id t)"

definition senderTabUrl :: "tab option \<Rightarrow> string" where
  "senderTabUrl sender = (case sender of None \<Rightarrow> [] | Some t \<Rightarrow> tab_url t)"

text \<open>
  The \<open>AI_UI_DETECTED\<close> branch (the non-breaking hyphen in its reason string is
  written as an ASCII hyphen). After admission the code reads \<open>sender.tab.id\<close>: with no
  sender tab (or no id to send to) that throws, the \<open>catch\<close> answers with an error, and
  the last-open entry written by \<open>shouldOpenRouter\<close> for tab \<open>-1\<close> stays.
\<close>

definition onAiUiDetected ::
  "platform \<Rightarrow> tick \<Rightarrow> string \<Rightarrow> string list \<Rightarrow> (string \<rightharpoonup> int) \<Rightarrow> bool option
     \<Rightarrow> tab option \<Rightarrow> sw_state \<Rightarrow> response \<times> sw_state" where
  "onAiUiDetected pf tk msgPageUrl signals sens isAiFromContent sender s =
     (let pageUrl = (if msgPageUrl \<noteq> [] then msgPageUrl else senderTabUrl sender) in
      if \<not> isHttpUrl (parseUrl pf) pageUrl then (Suppressed, s)
      else
        (let host = hostFromUrl (parseUrl pf) pageUrl;
             s1 = refreshRules s
         in
         case getActiveProfileSync (rulesCache s1) of
           None \<Rightarrow> (HandlerError, s1)
         | Some p \<Rightarrow>
             (let allow = isHostInList (parseUrl pf) host (allowList p);
                  block = isHostInList (parseUrl pf) host (blockList p)
              in
              if allow then
                (Suppressed, appendLog pf (tk_logTime tk) (UiDetectedSuppressed pageUrl host) s1)
              else
                (let isAi = (case isAiFromContent of
                               Some b \<Rightarrow> b
                             | None \<Rightarrow> isAiDomainHost pf s1 host);
                     c = \<lparr>isAiDomain = isAi, aiUiSignals = signals,
                          sensitiveFields = sens,
                          isInternalSite = isInternal pf pageUrl,
                          blocklisted = block\<rparr>;
                     risk0 = computeRiskScore c p;
                     risk = (if block then 100 else risk0)
                 in
                 if \<not> shouldPromptForProfile (Some p) block then (Suppressed, s1)
                 else
                   (case shouldOpenRouter (tk_now tk)
                           (Some (case senderTabId sender of None \<Rightarrow> - 1 | Some i \<Rightarrow> i))
                           host s1 of
                      (False, s2) \<Rightarrow> (Suppressed, s2)
                    | (True, s2) \<Rightarrow>
                        (case senderTabId sender of
                           None \<Rightarrow> (HandlerError, s2)
                         | Some tid \<Rightarrow>
                             (Ok,
                              appendLog pf (tk_logTime tk)
                                (UiDetected pageUrl host (take 5 signals) sens risk (pid p) block)
                                (safeOpenRouter pf (tk_sendResult tk) tid pageUrl
                                   \<lparr>d_reason = (if block then ''This site is blocked by policy''
                                                else ''In-app AI detected''),
                                    d_context = c, d_risk = risk, d_profileId = pid p\<rparr>
                                   s2))))))))"

text \<open>
  The \<open>ROUTER_DECISION\<close> branch. \<open>tk\<close> supplies \<open>Date.now()\<close> for the consent window and
  the log stamp.
\<close>

definition onRouterDecision ::
  "platform \<Rightarrow> tick \<Rightarrow> string \<Rightarrow> string \<Rightarrow> string \<Rightarrow> int \<Rightarrow> string \<Rightarrow> bool
     \<Rightarrow> tab option \<Rightarrow> sw_state \<Rightarrow> response \<times> sw_state" where
  "onRouterDecision pf tk decision why tabUrl rsk profId pinVerified sender s =
     (let s1 = appendLog pf (tk_logTime tk)
                 (RouterDecisionLog decision why tabUrl rsk profId pinVerified) s
      in
      if decision = ''proceed'' then
        (let host = hostFromUrl (parseUrl pf) tabUrl in
         case senderTabId sender of
           None \<Rightarrow> (Ok, s1)
         | Some tid \<Rightarrow>
             if host = [] then (Ok, s1)
             else
               (Ok, s1\<lparr>consentMap :=
                         (consentMap s1)(cacheKey tid host \<mapsto> tk_now tk + CONSENT_TTL_MS)\<rparr>))
      else (Ok, s1))"

text \<open>
  The \<open>PROMPT_ACTIVITY\<close> branch. The entry is built and appended whatever the mode; the
  mode only decides whether a digest or the first 2000 characters of the text go into it.
\<close>

definition onPromptActivity ::
  "platform \<Rightarrow> tick \<Rightarrow> string \<Rightarrow> string \<Rightarrow> tab option \<Rightarrow> sw_state \<Rightarrow> response \<times> sw_state" where
  "onPromptActivity pf tk promptText msgTabUrl sender s =
     (let pageUrl = (if msgTabUrl \<noteq> [] then msgTabUrl else senderTabUrl sender) in
      if \<not> isHttpUrl (parseUrl pf) pageUrl then (Ok, s)
      else
        (let s1 = refreshRules s in
         case getActiveProfileSync (rulesCache s1) of
           None \<Rightarrow> (HandlerError, s1)
         | Some p \<Rightarrow>
             (let mode = (if trackPrompts p = [] then ''off'' else trackPrompts p);
                  hash = (if mode = ''anonymized'' \<and> promptText \<noteq> [] then Some (digest pf promptText)
                          else None);
                  raw = (if mode = ''anonymized'' \<and> promptText \<noteq> [] then None
                         else if mode = ''full'' \<and> promptText \<noteq> [] then Some (take 2000 promptText)
                         else None)
              in (Ok, appendLog pf (tk_logTime tk)
                        (PromptLog mode pageUrl (length promptText) hash raw) s1))))"

definition onMessage ::
  "platform \<Rightarrow> tick \<Rightarrow> runtime_message \<Rightarrow> tab option \<Rightarrow> sw_state \<Rightarrow> response option \<times> sw_state" where
  "onMessage pf tk msg sender s =
     (case msg of
        AI_UI_DETECTED pageUrl signals sens isAi \<Rightarrow>
          (case onAiUiDetected pf tk pageUrl signals sens isAi sender s of
             (r, s') \<Rightarrow> (Some r, s'))
      | ROUTER_DECISION decision why tabUrl rsk profId pinVerified \<Rightarrow>
          (case onRouterDecision pf tk decision why tabUrl rsk profId pinVerified sender s of
             (r, s') \<Rightarrow> (Some r, s'))
      | PROMPT_ACTIVITY promptText tabUrl \<Rightarrow>
          (case onPromptActivity pf tk promptText tabUrl sender s of
             (r, s') \<Rightarrow> (Some r, s'))
      | REQUEST_AI_DOMAINS \<Rightarrow>
          (let s1 = bootIfEmpty pf s in
           (Some (Domains (aiDomainsCache s1)), s1))
      | GET_PROFILE \<Rightarrow>
          (let s1 = refreshRules s in
           (Some (ProfileReply (getActiveProfileSync (rulesCache s1))), s1))
      | UnknownMessage \<Rightarrow> (None, s))"

section \<open>Reacting to a change of the stored rules\<close>

text \<open>
  What \<open>chrome.storage.onChanged\<close> reports about the key \<open>rules\<close>: \<open>None\<close> when the key
  did not change, otherwise its new value (\<open>None\<close> when the key was removed).
\<close>

text \<open>
  The synchronous part of the listener for a change of \<open>rules\<close>: the cached rules are
  replaced by the new value if there is one, and both maps are cleared.
\<close>

definition storageOnChanged ::
  "string \<Rightarrow> rules_doc option option \<Rightarrow> sw_state \<Rightarrow> sw_state" where
  "storageOnChanged area rulesChange s =
     (if area \<noteq> ''local'' then s
      else
        (case rulesChange of
           None \<Rightarrow> s
         | Some newValue \<Rightarrow>
             s\<lparr>rulesCache := (case newValue of None \<Rightarrow> rulesCache s | Some r \<Rightarrow> Some r),
               lastOpenMap := Map.empty,
               consentMap := Map.empty\<rparr>))"

text \<open>
  The callback of \<open>chrome.tabs.query\<close> that the listener schedules: \<open>RULES_UPDATED\<close> goes
  to every http(s) tab, then the sweep runs.
\<close>

definition broadcastRulesUpdated :: "platform \<Rightarrow> tab list \<Rightarrow> sw_state \<Rightarrow> sw_state" where
  "broadcastRulesUpdated pf tabs s =
     foldl (\<lambda>st t.
        case tab_id t of
          None \<Rightarrow> st
        | Some tid \<Rightarrow>
            if tid = 0 \<or> tab_url t = [] then st
            else if isHttpUrl (parseUrl pf) (tab_url t)
              then st\<lparr>tabMessages := tabMessages st @ [(tid, RULES_UPDATED)]\<rparr>
              else st)
       s tabs"

definition rulesChangedCallback :: "platform \<Rightarrow> (tick \<times> tab) list \<Rightarrow> sw_state \<Rightarrow> sw_state" where
  "rulesChangedCallback pf tabs s =
     forceReevaluateAndPrompt pf tabs (broadcastRulesUpdated pf (map snd tabs) s)"

text \<open>The listener and its callback in the order the code runs them.\<close>

definition onRulesChanged ::
  "platform \<Rightarrow> rules_doc option \<Rightarrow> (tick \<times> tab) list \<Rightarrow> sw_state \<Rightarrow> sw_state" where
  "onRulesChanged pf newValue tabs s =
     rulesChangedCallback pf tabs (storageOnChanged ''local'' (Some newValue) s)"

section \<open>Observing one run of a handler\<close>

text \<open>
  The profile a handler resolves when it starts from a state: the cached rules are
  refreshed from storage, then \<open>getActiveProfileSync\<close> picks the profile.
\<close>

definition activeProfile :: "sw_state \<Rightarrow> profile option" where
  "activeProfile s = getActiveProfileSync (rulesCache (refreshRules s))"

text \<open>
  The messages sent to tabs and the log records stored between a state and a later one,
  the directives among messages, and the risk values that log records carry.
\<close>

definition newMessages :: "sw_state \<Rightarrow> sw_state \<Rightarrow> (int \<times> tab_message) list" where
  "newMessages s s' = drop (length (tabMessages s)) (tabMessages s')"

definition newLogs :: "sw_state \<Rightarrow> sw_state \<Rightarrow> log_payload list" where
  "newLogs s s' = drop (length (stored_logs s)) (stored_logs s')"

definition directivesOf :: "(int \<times> tab_message) list \<Rightarrow> directive list" where
  "directivesOf ms =
     concat (map (\<lambda>(i, m). case m of OPEN_ROUTER d \<Rightarrow> [d] | RULES_UPDATED \<Rightarrow> []) ms)"

definition loggedRisks :: "log_payload list \<Rightarrow> int list" where
  "loggedRisks ls =
     concat (map (\<lambda>e. case entry_risk (entry e) of None \<Rightarrow> [] | Some r \<Rightarrow> [r]) ls)"

section \<open>Example platform, rules and states\<close>

text \<open>
  Concrete inputs for the evaluations below. \<open>demoParse\<close> answers as the URL parser
  does on three addresses and rejects every other string; \<open>demoDigest\<close> stands in for
  the digest with a fixed string.
\<close>

definition demoParse :: url_parser where
  "demoParse u =
     (if u = ''https://blocked.example.com/chat''
        then Some \<lparr>protocol = ''https:'', hostname = ''blocked.example.com''\<rparr>
      else if u = ''https://intranet.example.com/''
        then Some \<lparr>protocol = ''https:'', hostname = ''intranet.example.com''\<rparr>
      else if u = ''https://chat.example.com/''
        then Some \<lparr>protocol = ''https:'', hostname = ''chat.example.com''\<rparr>
      else None)"

definition demoDigest :: "string \<Rightarrow> string" where
  "demoDigest t = ''2cf24dba5fb0a30e26e83b2ac5b9e29e''"

definition demoRules :: rules_doc where
  "demoRules = \<lparr>selectedProfileId = ''strict'', profiles = [strictProfile], adminPin = ''1234''\<rparr>"

definition demoPlatform :: platform where
  "demoPlatform =
     \<lparr>parseUrl = demoParse, digest = demoDigest,
      randomUUID = ''123e4567-e89b-12d3-a456-426614174000'',
      packagedDefaults = Some demoRules, packagedDomains = Some [''example.com'']\<rparr>"

definition demoState :: sw_state where
  "demoState =
     emptyState\<lparr>aiDomainsCache := [''example.com''], stored_rules := Some demoRules,
                stored_userId := ''user-1''\<rparr>"

definition demoTick :: tick where
  "demoTick = \<lparr>tk_now = 1700000000000, tk_sendResult = Delivered, tk_logTime = 1700000000050\<rparr>"

definition blockedTab :: tab where
  "blockedTab = \<lparr>tab_id = Some 7, tab_url = ''https://blocked.example.com/chat''\<rparr>"

definition allowedTab :: tab where
  "allowedTab = \<lparr>tab_id = Some 8, tab_url = ''https://intranet.example.com/''\<rparr>"

definition chatTab :: tab where
  "chatTab = \<lparr>tab_id = Some 9, tab_url = ''https://chat.example.com/''\<rparr>"

text \<open>A profile whose prompt tracking is off, and a state whose stored rules select it.\<close>

definition confirmProfile :: profile where
  "confirmProfile =
     \<lparr>pid = ''confirm'', allowList = [], blockList = [], trackPrompts = ''off'',
      requireAdminPinAboveThreshold = False, riskThreshold = Some 70,
      sensitiveFieldWeights = Map.empty, aiOnPageWeight = Some 30,
      aiDomainWeight = Some 40, internalSiteWeight = Some 20\<rparr>"

definition confirmRules :: rules_doc where
  "confirmRules =
     \<lparr>selectedProfileId = ''confirm'', profiles = [confirmProfile, strictProfile], adminPin = []\<rparr>"

definition confirmState :: sw_state where
  "confirmState =
     emptyState\<lparr>aiDomainsCache := [''example.com''], stored_rules := Some confirmRules,
                stored_userId := ''user-1''\<rparr>"

text \<open>A state that holds a consent window and a last open from before a policy edit.\<close>

definition staleState :: sw_state where
  "staleState =
     demoState\<lparr>lastOpenMap := [cacheKey 9 ''chat.example.com'' \<mapsto> 1699999999000],
               consentMap := [cacheKey 9 ''chat.example.com'' \<mapsto> 1700000500000]\<rparr>"

section \<open>The Router in the page\<close>

text \<open>
  One prompt is one call of \<open>renderRouter\<close>: whether its overlay is in the document,
  its own variable \<open>pinRequired\<close>, the payload it was opened with, and what the user has
  typed into its PIN field and ticked. A second directive that arrives while an earlier
  overlay is still in the document adds a second prompt; each keeps its own
  \<open>pinRequired\<close>.
\<close>

record prompt =
  attached :: bool
  pinRequired :: bool
  p_reason :: string
  p_risk :: int
  p_profileId :: string
  pinInput :: string
  allowChecked :: bool
  blockChecked :: bool

text \<open>
  The content script's state in one page: the page-wide flag
  \<open>window.__AIPG_SUPPRESS_ROUTER__\<close>, the flag \<open>routerOpen\<close>, the prompts in the order
  they were opened, the number of blocking shields in the document, and
  \<open>lastSignalSentAt\<close>.
\<close>

record router =
  suppress :: bool
  routerOpen :: bool
  prompts :: "prompt list"
  shields :: nat
  lastSignalSentAt :: int

text \<open>
  The page: \<open>location.href\<close>, the host name the URL parser gives for it,
  \<open>isAiDomainHere\<close>, and what the two detectors find in the page's own elements: the
  selectors of \<open>AI_SELECTORS\<close> that match, in order, and the counts of
  \<open>detectSensitiveFields\<close>.
\<close>

record page =
  href :: string
  page_hostname :: string
  isAiDomainHere :: bool
  pageSignals :: "string list"
  pageFields :: "string \<rightharpoonup> int"

text \<open>
  What a handler of the page does to the outside, in order: a message to the worker, an
  \<open>alert\<close>, a navigation, a write of \<open>rules\<close> to storage. The \<open>redirectedTo\<close> field of
  a redirect decision is not part of \<open>ROUTER_DECISION\<close> here, the worker never reads it.
\<close>

datatype page_effect =
    SendMessage runtime_message
  | Alert string
  | Navigate string
  | StoreRules rules_doc

definition closedRouter :: router where
  "closedRouter =
     \<lparr>suppress = False, routerOpen = False, prompts = [], shields = 0, lastSignalSentAt = 0\<rparr>"

subsection \<open>The mutation observer\<close>

text \<open>
  Every element of a prompt or of a shield that is added to or removed from the document
  makes the \<open>MutationObserver\<close> call \<open>maybeSignal\<close>, after the handler that changed the
  document has run. No element of an overlay or a shield matches a selector of
  \<open>AI_SELECTORS\<close>; of the three inputs of an overlay only the PIN field is counted by
  \<open>detectSensitiveFields\<close>, as one password field, whether or not it is displayed.
\<close>

definition SIGNAL_COOLDOWN_MS :: int where
  "SIGNAL_COOLDOWN_MS = 3000"

definition detectAiUiSignals :: "page \<Rightarrow> string list" where
  "detectAiUiSignals pg = take 5 (pageSignals pg)"

definition detectSensitiveFields :: "page \<Rightarrow> router \<Rightarrow> (string \<rightharpoonup> int)" where
  "detectSensitiveFields pg r =
     map_of (map (\<lambda>k. (k, js_or (pageFields pg k) 0
                          + (if k = ''password'' then int (length (filter attached (prompts r)))
                             else 0)))
               sensitiveKinds)"

definition maybeSignal :: "int \<Rightarrow> page \<Rightarrow> router \<Rightarrow> router \<times> page_effect list" where
  "maybeSignal t pg r =
     (if suppress r then (r, [])
      else if t - lastSignalSentAt r < SIGNAL_COOLDOWN_MS then (r, [])
      else
        (let signals = detectAiUiSignals pg;
             found = detectSensitiveFields pg r;
             hasSignals = (signals \<noteq> []);
             hasSensitive = list_ex (\<lambda>k. js_or (found k) 0 > 0) sensitiveKinds
         in
         if hasSignals \<or> hasSensitive then
           (r\<lparr>lastSignalSentAt := t\<rparr>,
            [SendMessage (AI_UI_DETECTED (href pg) signals found (Some (isAiDomainHere pg)))])
         else (r, [])))"

text \<open>A handler that changed the document, followed by the observer's call.\<close>

definition observed ::
  "int \<Rightarrow> page \<Rightarrow> router \<times> page_effect list \<Rightarrow> router \<times> page_effect list" where
  "observed t pg res =
     (case res of
        (r, effects) \<Rightarrow> (case maybeSignal t pg r of (r1, sent) \<Rightarrow> (r1, effects @ sent)))"

subsection \<open>Opening a prompt\<close>

text \<open>
  The \<open>OPEN_ROUTER\<close> listener with the start of \<open>renderRouter\<close>: the overlay is added
  and \<open>GET_PROFILE\<close> is asked. \<open>renderRouter\<close> awaits nothing, so its promise settles at
  once and \<open>routerOpen\<close> is false again when the step ends.
\<close>

definition newPrompt :: "directive \<Rightarrow> prompt" where
  "newPrompt d =
     \<lparr>attached = True, pinRequired = False, p_reason = d_reason d, p_risk = d_risk d,
      p_profileId = d_profileId d, pinInput = [], allowChecked = False, blockChecked = False\<rparr>"

definition onOpenRouter :: "int \<Rightarrow> page \<Rightarrow> directive \<Rightarrow> router \<Rightarrow> router \<times> page_effect list" where
  "onOpenRouter t pg d r =
     (if suppress r then (r, [])
      else if \<not> routerOpen r then
        observed t pg
          (r\<lparr>suppress := True, routerOpen := False, prompts := prompts r @ [newPrompt d]\<rparr>,
           [SendMessage GET_PROFILE])
      else (r, []))"

text \<open>
  The prompt number \<open>i\<close> when its overlay is in the document, so that its buttons can be
  clicked; and the replacement of a prompt.
\<close>

definition promptAt :: "router \<Rightarrow> nat \<Rightarrow> prompt option" where
  "promptAt r i =
     (if i < length (prompts r) \<and> attached (prompts r ! i) then Some (prompts r ! i) else None)"

definition setPrompt :: "nat \<Rightarrow> prompt \<Rightarrow> router \<Rightarrow> router" where
  "setPrompt i pr r = r\<lparr>prompts := (prompts r)[i := pr]\<rparr>"

text \<open>
  The callback of \<open>GET_PROFILE\<close> of prompt \<open>i\<close>:
  \<open>profile?.requireAdminPinAboveThreshold && (risk >= (profile.riskThreshold || 100))\<close>.
  It changes no child list, so the observer is not called.
\<close>

definition pinRequiredFor :: "profile option \<Rightarrow> int \<Rightarrow> bool" where
  "pinRequiredFor prof rsk =
     (case prof of
        None \<Rightarrow> False
      | Some p \<Rightarrow> requireAdminPinAboveThreshold p \<and> rsk \<ge> js_or (riskThreshold p) 100)"

definition onProfileReply :: "profile option \<Rightarrow> nat \<Rightarrow> router \<Rightarrow> router" where
  "onProfileReply prof i r =
     (if i < length (prompts r) \<and> pinRequiredFor prof (p_risk (prompts r ! i))
      then setPrompt i ((prompts r ! i)\<lparr>pinRequired := True\<rparr>) r
      else r)"

text \<open>The user types into the PIN field of prompt \<open>i\<close>.\<close>

definition typePin :: "nat \<Rightarrow> string \<Rightarrow> router \<Rightarrow> router" where
  "typePin i typed r =
     (case promptAt r i of None \<Rightarrow> r | Some pr \<Rightarrow> setPrompt i (pr\<lparr>pinInput := typed\<rparr>) r)"

subsection \<open>The buttons\<close>

text \<open>\<open>close\<close> of prompt \<open>i\<close>, and \<open>showBlockingShield\<close>.\<close>

definition closePrompt :: "nat \<Rightarrow> router \<Rightarrow> router" where
  "closePrompt i r =
     (if i < length (prompts r) then setPrompt i ((prompts r ! i)\<lparr>attached := False\<rparr>) r else r)"

definition showBlockingShield :: "router \<Rightarrow> router" where
  "showBlockingShield r = r\<lparr>shields := Suc (shields r), suppress := False\<rparr>"

text \<open>
  The storage callback of \<open>sendDecision\<close>: the page's host is appended to the ticked
  lists of the selected profile; nothing is written when no profile has the selected id.
\<close>

definition addHostToLists :: "bool \<Rightarrow> bool \<Rightarrow> string \<Rightarrow> rules_doc option \<Rightarrow> rules_doc option" where
  "addHostToLists allowC blockC host stored =
     (case stored of
        None \<Rightarrow> None
      | Some rl \<Rightarrow>
          (let selectedId = (if selectedProfileId rl = [] then ''confirm'' else selectedProfileId rl) in
           case List.extract (\<lambda>p. pid p = selectedId) (profiles rl) of
             None \<Rightarrow> None
           | Some (before, p, after) \<Rightarrow>
               (let p1 = (if allowC \<and> host \<notin> set (allowList p)
                          then p\<lparr>allowList := allowList p @ [host]\<rparr> else p);
                    p2 = (if blockC \<and> host \<notin> set (blockList p1)
                          then p1\<lparr>blockList := blockList p1 @ [host]\<rparr> else p1)
                in Some (rl\<lparr>profiles := before @ [p2] @ after\<rparr>))))"

text \<open>
  \<open>sendDecision\<close> of a prompt. The reason sent is the text of the rendered reason, which
  is \<open>AI activity detected\<close> when the directive had none. The message leaves before the
  storage callback runs.
\<close>

definition shownReason :: "prompt \<Rightarrow> string" where
  "shownReason pr = (if p_reason pr = [] then ''AI activity detected'' else p_reason pr)"

definition sendDecision ::
  "page \<Rightarrow> rules_doc option \<Rightarrow> string \<Rightarrow> bool \<Rightarrow> prompt \<Rightarrow> router
     \<Rightarrow> router \<times> page_effect list" where
  "sendDecision pg stored choice pinVerified pr r =
     (r\<lparr>suppress := True\<rparr>,
      [SendMessage (ROUTER_DECISION choice (shownReason pr) (href pg) (p_risk pr) (p_profileId pr)
          pinVerified)]
      @ (if allowChecked pr \<or> blockChecked pr then
           (case addHostToLists (allowChecked pr) (blockChecked pr) (page_hostname pg) stored of
              None \<Rightarrow> []
            | Some rl \<Rightarrow> [StoreRules rl])
         else []))"

text \<open>\<open>rules?.adminPin || ""\<close>\<close>

definition storedAdminPin :: "rules_doc option \<Rightarrow> string" where
  "storedAdminPin stored = (case stored of None \<Rightarrow> [] | Some rl \<Rightarrow> adminPin rl)"

text \<open>
  The click handlers of Cancel, Proceed and Use Approved AI of prompt \<open>i\<close>. \<open>t\<close> is the
  clock when the observer runs after the click.
\<close>

definition clickCancel ::
  "int \<Rightarrow> page \<Rightarrow> rules_doc option \<Rightarrow> nat \<Rightarrow> router \<Rightarrow> router \<times> page_effect list" where
  "clickCancel t pg stored i r =
     (case promptAt r i of
        None \<Rightarrow> (r, [])
      | Some pr \<Rightarrow>
          if pinRequired pr then observed t pg (showBlockingShield r, [])
          else
            (case sendDecision pg stored ''cancel'' False pr r of
               (r1, effects) \<Rightarrow> observed t pg (closePrompt i r1, effects)))"

definition clickProceed ::
  "int \<Rightarrow> page \<Rightarrow> rules_doc option \<Rightarrow> nat \<Rightarrow> router \<Rightarrow> router \<times> page_effect list" where
  "clickProceed t pg stored i r =
     (case promptAt r i of
        None \<Rightarrow> (r, [])
      | Some pr \<Rightarrow>
          if pinRequired pr then
            (let entered = pinInput pr;
                 pin = storedAdminPin stored
             in
             if pin = [] \<or> entered \<noteq> pin then (r, [Alert ''Admin PIN required.''])
             else
               (case sendDecision pg stored ''proceed'' True pr r of
                  (r1, effects) \<Rightarrow> observed t pg (closePrompt i r1, effects)))
          else
            (case sendDecision pg stored ''proceed'' False pr r of
               (r1, effects) \<Rightarrow> observed t pg (closePrompt i r1, effects)))"

definition clickRedirect ::
  "int \<Rightarrow> page \<Rightarrow> string \<Rightarrow> nat \<Rightarrow> router \<Rightarrow> router \<times> page_effect list" where
  "clickRedirect t pg approvedAiUrl i r =
     (case promptAt r i of
        None \<Rightarrow> (r, [])
      | Some pr \<Rightarrow>
          (let u = trim approvedAiUrl in
           if u = [] then
             (r, [Alert ''Approved AI URL is not configured. Set it in Options.''])
           else
             observed t pg
               (closePrompt i r,
                [SendMessage (ROUTER_DECISION ''redirect'' (shownReason pr) (href pg) (p_risk pr)
                    (p_profileId pr) False),
                 Navigate u])))"

text \<open>
  Return on a blocking shield removes that shield; the close button and the Escape key
  remove the overlay of their prompt; \<open>RULES_UPDATED\<close> lifts the suppression and removes
  the first overlay in the document; the tip text is set when the tips have loaded.
\<close>

definition clickReturn :: "int \<Rightarrow> page \<Rightarrow> router \<Rightarrow> router \<times> page_effect list" where
  "clickReturn t pg r =
     (if shields r = 0 then (r, []) else observed t pg (r\<lparr>shields := shields r - 1\<rparr>, []))"

definition clickClose :: "int \<Rightarrow> page \<Rightarrow> nat \<Rightarrow> router \<Rightarrow> router \<times> page_effect list" where
  "clickClose t pg i r =
     (case promptAt r i of None \<Rightarrow> (r, []) | Some pr \<Rightarrow> observed t pg (closePrompt i r, []))"

fun firstAttached :: "prompt list \<Rightarrow> nat option" where
  "firstAttached [] = None"
| "firstAttached (p # ps) = (if attached p then Some 0 else map_option Suc (firstAttached ps))"

definition onRulesUpdated :: "int \<Rightarrow> page \<Rightarrow> router \<Rightarrow> router \<times> page_effect list" where
  "onRulesUpdated t pg r =
     (let r1 = r\<lparr>suppress := False\<rparr> in
      case firstAttached (prompts r1) of
        None \<Rightarrow> (r1, [])
      | Some i \<Rightarrow> observed t pg (closePrompt i r1, []))"

definition onTipsLoaded :: "int \<Rightarrow> page \<Rightarrow> nat \<Rightarrow> router \<Rightarrow> router \<times> page_effect list" where
  "onTipsLoaded t pg i r =
     (case promptAt r i of None \<Rightarrow> (r, []) | Some pr \<Rightarrow> observed t pg (r, []))"

text \<open>The page is blocked while an overlay or a shield covers it.\<close>

definition pageBlocked :: "router \<Rightarrow> bool" where
  "pageBlocked r = (list_ex attached (prompts r) \<or> shields r > 0)"

text \<open>
  PIN-required mode in the words of the specification: the profile requires a PIN above
  its threshold and the delivered risk meets the threshold.
\<close>

definition specPinRequired :: "profile \<Rightarrow> int \<Rightarrow> bool" where
  "specPinRequired p rsk =
     (requireAdminPinAboveThreshold p
      \<and> (case riskThreshold p of None \<Rightarrow> False | Some th \<Rightarrow> rsk \<ge> th))"

text \<open>
  The worker handling the messages among the effects of a page handler, in order, and
  the effects that are signals of the observer.
\<close>

fun workerReceives ::
  "platform \<Rightarrow> tick \<Rightarrow> tab option \<Rightarrow> page_effect list \<Rightarrow> sw_state \<Rightarrow> sw_state" where
  "workerReceives pf tk sender [] s = s"
| "workerReceives pf tk sender (SendMessage m # es) s =
     workerReceives pf tk sender es (snd (onMessage pf tk m sender s))"
| "workerReceives pf tk sender (e # es) s = workerReceives pf tk sender es s"

fun isSignal :: "page_effect \<Rightarrow> bool" where
  "isSignal (SendMessage (AI_UI_DETECTED u sg f a)) = True"
| "isSignal e = False"

section \<open>Example prompts\<close>

text \<open>
  A profile that requires the PIN with the threshold 0 and the rules that select it, a
  directive of risk 50 and one of risk 85, and the page they arrive in.
\<close>

definition zeroThresholdProfile :: profile where
  "zeroThresholdProfile = strictProfile\<lparr>riskThreshold := Some 0\<rparr>"

definition zeroThresholdRules :: rules_doc where
  "zeroThresholdRules =
     \<lparr>selectedProfileId = ''strict'', profiles = [zeroThresholdProfile], adminPin = ''1234''\<rparr>"

definition directive50 :: directive where
  "directive50 =
     \<lparr>d_reason = ''AI domain detected'', d_context = aiDomainCtx, d_risk = 50,
      d_profileId = ''strict''\<rparr>"

definition directive85 :: directive where
  "directive85 =
     \<lparr>d_reason = ''In-app AI detected'', d_context = busyCtx, d_risk = 85,
      d_profileId = ''strict''\<rparr>"

definition chatPage :: page where
  "chatPage =
     \<lparr>href = ''https://chat.example.com/'', page_hostname = ''chat.example.com'',
      isAiDomainHere = True, pageSignals = [''[data-ai]''], pageFields = Map.empty\<rparr>"

text \<open>
  The prompt for \<open>directive50\<close> under \<open>zeroThresholdProfile\<close>, and the prompt for
  \<open>directive85\<close> under \<open>strictProfile\<close>, each after the \<open>GET_PROFILE\<close> reply and with a
  PIN typed in.
\<close>

definition zeroPrompt :: "string \<Rightarrow> router" where
  "zeroPrompt typed =
     typePin 0 typed
       (onProfileReply (Some zeroThresholdProfile) 0
          (fst (onOpenRouter 1700000000100 chatPage directive50 closedRouter)))"

definition pinPrompt :: "string \<Rightarrow> router" where
  "pinPrompt typed =
     typePin 0 typed
       (onProfileReply (Some strictProfile) 0
          (fst (onOpenRouter 1700000000100 chatPage directive85 closedRouter)))"

section \<open>Properties of prompt admission\<close>

text \<open>
  C10. A call of \<open>shouldOpenRouter\<close> whose tab id is null or undefined, or whose host
  is the empty string, returns false and leaves the state, and so both the last-open
  map and the consent map, as it was.
\<close>

theorem shouldOpenRouter_rejects_missing_key:
  "tabId = None \<or> host = [] \<longrightarrow>
     shouldOpenRouter now tabId host s = (False, s)
     \<and> lastOpenMap (snd (shouldOpenRouter now tabId host s)) = lastOpenMap s
     \<and> consentMap (snd (shouldOpenRouter now tabId host s)) = consentMap s"
  by (cases tabId) (auto simp: shouldOpenRouter_def)

theorem shouldOpenRouter_rejects_missing_key_witness:
  "shouldOpenRouter 1700000000000 None ''chat.example.com'' emptyState = (False, emptyState)
   \<and> shouldOpenRouter 1700000000000 (Some 7) [] emptyState = (False, emptyState)"
  using shouldOpenRouter_rejects_missing_key [of None "''chat.example.com''" 1700000000000 emptyState]
        shouldOpenRouter_rejects_missing_key [of "Some 7" "[]" 1700000000000 emptyState]
  by simp

text \<open>
  C6. For a key (tab id \<open>t\<close>, non-empty \<open>host\<close>), with the clock at least the cooldown
  past the epoch (\<open>Date.now()\<close> counts milliseconds since 1970, and a key never opened
  reads as last opened at 0): \<open>shouldOpenRouter\<close> returns false and changes nothing when
  a consent window of the key has not yet expired; it returns false and changes nothing
  when the last open recorded for the key is less than the 5 s cooldown before the current
  time; otherwise it records the current time as the key's last open and returns true.
  Hence of two calls for the same key, the second on the state left by the first and read
  less than the cooldown after it, at most one returns true.
\<close>

theorem shouldOpenRouter_dedup:
  assumes "host \<noteq> []" and "OPEN_COOLDOWN_MS \<le> now"
  shows
    "((\<exists>u. consentMap s (cacheKey t host) = Some u \<and> now < u) \<longrightarrow>
        shouldOpenRouter now (Some t) host s = (False, s))
     \<and> ((\<exists>l. lastOpenMap s (cacheKey t host) = Some l \<and> now - l < OPEN_COOLDOWN_MS) \<longrightarrow>
        shouldOpenRouter now (Some t) host s = (False, s))
     \<and> (\<not> (\<exists>u. consentMap s (cacheKey t host) = Some u \<and> now < u)
        \<and> \<not> (\<exists>l. lastOpenMap s (cacheKey t host) = Some l \<and> now - l < OPEN_COOLDOWN_MS) \<longrightarrow>
        shouldOpenRouter now (Some t) host s =
          (True, s\<lparr>lastOpenMap := (lastOpenMap s)(cacheKey t host \<mapsto> now)\<rparr>))
     \<and> (\<forall>now2. now2 - now < OPEN_COOLDOWN_MS \<longrightarrow>
          \<not> (fst (shouldOpenRouter now (Some t) host s)
             \<and> fst (shouldOpenRouter now2 (Some t) host
                     (snd (shouldOpenRouter now (Some t) host s)))))"
proof (intro conjI impI allI)
  assume "\<exists>u. consentMap s (cacheKey t host) = Some u \<and> now < u"
  then show "shouldOpenRouter now (Some t) host s = (False, s)"
    using assms(1) by (auto simp: shouldOpenRouter_def consentActive_def)
next
  assume "\<exists>l. lastOpenMap s (cacheKey t host) = Some l \<and> now - l < OPEN_COOLDOWN_MS"
  then show "shouldOpenRouter now (Some t) host s = (False, s)"
    using assms(1) by (auto simp: shouldOpenRouter_def js_or_def Let_def)
next
  assume a: "\<not> (\<exists>u. consentMap s (cacheKey t host) = Some u \<and> now < u)
        \<and> \<not> (\<exists>l. lastOpenMap s (cacheKey t host) = Some l \<and> now - l < OPEN_COOLDOWN_MS)"
  then have c: "\<not> consentActive s (cacheKey t host) now"
    by (auto simp: consentActive_def split: option.splits)
  have "\<not> now - js_or (lastOpenMap s (cacheKey t host)) 0 < OPEN_COOLDOWN_MS"
    using a assms(2) by (auto simp: js_or_def split: option.splits)
  with c show "shouldOpenRouter now (Some t) host s =
      (True, s\<lparr>lastOpenMap := (lastOpenMap s)(cacheKey t host \<mapsto> now)\<rparr>)"
    using assms(1) by (simp add: shouldOpenRouter_def Let_def)
next
  fix now2 :: int
  assume w: "now2 - now < OPEN_COOLDOWN_MS"
  show "\<not> (fst (shouldOpenRouter now (Some t) host s)
             \<and> fst (shouldOpenRouter now2 (Some t) host
                     (snd (shouldOpenRouter now (Some t) host s))))"
  proof
    assume b: "fst (shouldOpenRouter now (Some t) host s)
             \<and> fst (shouldOpenRouter now2 (Some t) host
                     (snd (shouldOpenRouter now (Some t) host s)))"
    then have first: "shouldOpenRouter now (Some t) host s =
        (True, s\<lparr>lastOpenMap := (lastOpenMap s)(cacheKey t host \<mapsto> now)\<rparr>)"
      by (auto simp: shouldOpenRouter_def Let_def split: if_splits)
    have "js_or (Some now) 0 = now"
      by (simp add: js_or_def)
    then have "\<not> fst (shouldOpenRouter now2 (Some t) host
        (s\<lparr>lastOpenMap := (lastOpenMap s)(cacheKey t host \<mapsto> now)\<rparr>))"
      using w by (simp add: shouldOpenRouter_def Let_def)
    with b first show False
      by simp
  qed
qed

theorem shouldOpenRouter_dedup_witness:
  "shouldOpenRouter 1700000000000 (Some 7) ''chat.example.com'' emptyState =
     (True, emptyState\<lparr>lastOpenMap :=
        (lastOpenMap emptyState)(cacheKey 7 ''chat.example.com'' \<mapsto> 1700000000000)\<rparr>)
   \<and> \<not> fst (shouldOpenRouter 1700000001200 (Some 7) ''chat.example.com''
             (snd (shouldOpenRouter 1700000000000 (Some 7) ''chat.example.com'' emptyState)))"
proof -
  have h: "''chat.example.com'' \<noteq> []"
    by simp
  have c: "OPEN_COOLDOWN_MS \<le> 1700000000000"
    by (simp add: OPEN_COOLDOWN_MS_def)
  note dedup = shouldOpenRouter_dedup [OF h c, of emptyState 7]
  have fresh: "consentMap emptyState (cacheKey 7 ''chat.example.com'') = None"
    "lastOpenMap emptyState (cacheKey 7 ''chat.example.com'') = None"
    by (simp_all add: emptyState_def)
  from dedup fresh have first:
    "shouldOpenRouter 1700000000000 (Some 7) ''chat.example.com'' emptyState =
       (True, emptyState\<lparr>lastOpenMap :=
          (lastOpenMap emptyState)(cacheKey 7 ''chat.example.com'' \<mapsto> 1700000000000)\<rparr>)"
    by simp
  from dedup have
    "(1700000001200::int) - 1700000000000 < OPEN_COOLDOWN_MS \<longrightarrow>
       \<not> (fst (shouldOpenRouter 1700000000000 (Some 7) ''chat.example.com'' emptyState)
          \<and> fst (shouldOpenRouter 1700000001200 (Some 7) ''chat.example.com''
                  (snd (shouldOpenRouter 1700000000000 (Some 7) ''chat.example.com'' emptyState))))"
    by blast
  then have "\<not> fst (shouldOpenRouter 1700000001200 (Some 7) ''chat.example.com''
             (snd (shouldOpenRouter 1700000000000 (Some 7) ''chat.example.com'' emptyState)))"
    using first by (simp add: OPEN_COOLDOWN_MS_def)
  with first show ?thesis
    by simp
qed

section \<open>Properties of the risk scorer\<close>

lemma foldl_weights:
  "foldl (\<lambda>score k. if P k then score + w k else score) a ks
     = a + (\<Sum>k\<leftarrow>ks. if P k then w k else (0::int))"
  by (induction ks arbitrary: a) simp_all

lemma computeRiskScore_is_clamped_sum:
  "computeRiskScore c p = min 100 (specWeightedSum c p)"
  by (simp add: computeRiskScore_def specWeightedSum_def foldl_weights Let_def)

lemma sum_list_nonneg_weights:
  "list_all (\<lambda>k. 0 \<le> w k) ks \<Longrightarrow> 0 \<le> (\<Sum>k\<leftarrow>ks. if P k then w k else (0::int))"
  by (induction ks) auto

text \<open>
  C5, as the code has it. For every context and profile the score is the sum of the
  weighted contributions (\<open>aiDomainWeight\<close> if \<open>isAiDomain\<close>, \<open>aiOnPageWeight\<close> if
  \<open>aiUiSignals\<close> is not empty, \<open>internalSiteWeight\<close> if \<open>isInternalSite\<close>, and each
  \<open>sensitiveFieldWeights\<close> entry whose count is positive) cut off at 100 from above:
  an integer that is at most 100, and at least 0 whenever no weight of the profile is
  negative. There is no lower cut-off.
\<close>

theorem computeRiskScore_range:
  "computeRiskScore c p = min 100 (specWeightedSum c p)
   \<and> computeRiskScore c p \<le> 100
   \<and> (nonNegativeWeights p \<longrightarrow> 0 \<le> computeRiskScore c p)"
proof (intro conjI impI)
  show eq: "computeRiskScore c p = min 100 (specWeightedSum c p)"
    by (rule computeRiskScore_is_clamped_sum)
  then show "computeRiskScore c p \<le> 100"
    by simp
  assume "nonNegativeWeights p"
  then have "0 \<le> specWeightedSum c p"
    unfolding nonNegativeWeights_def specWeightedSum_def
    by (auto intro!: add_nonneg_nonneg sum_list_nonneg_weights)
  with eq show "0 \<le> computeRiskScore c p"
    by simp
qed

theorem computeRiskScore_range_witness:
  "nonNegativeWeights strictProfile \<and> computeRiskScore busyCtx strictProfile = 100
   \<and> specWeightedSum busyCtx strictProfile = 110"
  using computeRiskScore_range [of busyCtx strictProfile]
  by (simp add: nonNegativeWeights_def specWeightedSum_def strictProfile_def busyCtx_def
      sensitiveKinds_def js_or_def)

text \<open>
  The claim as stated fails: with a negative weight the score is negative, so it is not
  in the range from 0 to 100.
\<close>

theorem computeRiskScore_negative_counterexample:
  "computeRiskScore aiDomainCtx discountProfile = - 5
   \<and> \<not> (0 \<le> computeRiskScore aiDomainCtx discountProfile
        \<and> computeRiskScore aiDomainCtx discountProfile \<le> 100)"
  by (simp add: computeRiskScore_def aiDomainCtx_def discountProfile_def sensitiveKinds_def
      js_or_def)

section \<open>What each step leaves unchanged\<close>

lemma refreshRules_frame [simp]:
  "tabMessages (refreshRules s) = tabMessages s"
  "stored_logs (refreshRules s) = stored_logs s"
  "lastOpenMap (refreshRules s) = lastOpenMap s"
  "consentMap (refreshRules s) = consentMap s"
  "aiDomainsCache (refreshRules s) = aiDomainsCache s"
  by (simp_all add: refreshRules_def split: option.splits)

lemma ensureBoot_frame [simp]:
  "tabMessages (ensureBoot pf s) = tabMessages s"
  "stored_logs (ensureBoot pf s) = stored_logs s"
  "lastOpenMap (ensureBoot pf s) = lastOpenMap s"
  "consentMap (ensureBoot pf s) = consentMap s"
  by (simp_all add: ensureBoot_def Let_def split: option.splits)

lemma bootIfEmpty_frame [simp]:
  "tabMessages (bootIfEmpty pf s) = tabMessages s"
  "stored_logs (bootIfEmpty pf s) = stored_logs s"
  "lastOpenMap (bootIfEmpty pf s) = lastOpenMap s"
  "consentMap (bootIfEmpty pf s) = consentMap s"
  by (simp_all add: bootIfEmpty_def)

lemma appendLog_frame [simp]:
  "tabMessages (appendLog pf t e s) = tabMessages s"
  "lastOpenMap (appendLog pf t e s) = lastOpenMap s"
  "consentMap (appendLog pf t e s) = consentMap s"
  "rulesCache (appendLog pf t e s) = rulesCache s"
  "stored_rules (appendLog pf t e s) = stored_rules s"
  by (simp_all add: appendLog_def Let_def)

lemma appendLog_logs:
  "\<exists>pl. entry pl = e \<and> stored_logs (appendLog pf t e s) = stored_logs s @ [pl]"
  by (simp add: appendLog_def Let_def)

lemma safeOpenRouter_frame [simp]:
  "stored_logs (safeOpenRouter pf res i u d s) = stored_logs s"
  "lastOpenMap (safeOpenRouter pf res i u d s) = lastOpenMap s"
  "consentMap (safeOpenRouter pf res i u d s) = consentMap s"
  "rulesCache (safeOpenRouter pf res i u d s) = rulesCache s"
  "stored_rules (safeOpenRouter pf res i u d s) = stored_rules s"
  by (simp_all add: safeOpenRouter_def Let_def split: send_result.splits)

lemma safeOpenRouter_messages:
  "\<exists>k. tabMessages (safeOpenRouter pf res i u d s) = tabMessages s @ replicate k (i, OPEN_ROUTER d)"
proof (cases "u = [] \<or> \<not> isHttpUrl (parseUrl pf) u")
  case True
  then have "tabMessages (safeOpenRouter pf res i u d s)
      = tabMessages s @ replicate 0 (i, OPEN_ROUTER d)"
    by (simp add: safeOpenRouter_def)
  then show ?thesis by blast
next
  case False
  then have "tabMessages (safeOpenRouter pf res i u d s)
      = tabMessages s @ replicate (if res = NoReceiver then 2 else 1) (i, OPEN_ROUTER d)"
    by (cases res) (simp_all add: safeOpenRouter_def Let_def numeral_2_eq_2)
  then show ?thesis by blast
qed

lemma shouldOpenRouter_frame:
  "shouldOpenRouter n t h s = (b, s') \<Longrightarrow>
     tabMessages s' = tabMessages s \<and> stored_logs s' = stored_logs s
     \<and> consentMap s' = consentMap s \<and> rulesCache s' = rulesCache s
     \<and> stored_rules s' = stored_rules s"
  by (auto simp: shouldOpenRouter_def Let_def split: option.splits if_splits)

lemma shouldOpenRouter_refused:
  "shouldOpenRouter n t h s = (False, s') \<Longrightarrow> s' = s"
  by (auto simp: shouldOpenRouter_def Let_def split: option.splits if_splits)

lemma directivesOf_replicate:
  "set (directivesOf (replicate k (i, OPEN_ROUTER d))) \<subseteq> {d}"
  by (induction k) (auto simp: directivesOf_def)

lemma nothing_new:
  "tabMessages s' = tabMessages s \<Longrightarrow> newMessages s s' = []"
  "stored_logs s' = stored_logs s \<Longrightarrow> newLogs s s' = []"
  by (simp_all add: newMessages_def newLogs_def)

lemma observe_nothing [simp]:
  "directivesOf [] = []"
  "loggedRisks [] = []"
  by (simp_all add: directivesOf_def loggedRisks_def)

lemma newMessages_appendLog [simp]:
  "newMessages s (appendLog pf lt e s2) = newMessages s s2"
  by (simp add: newMessages_def)

lemma newLogs_safeOpenRouter [simp]:
  "newLogs s (safeOpenRouter pf res i u d s2) = newLogs s s2"
  by (simp add: newLogs_def)

lemma sent_directive_is:
  assumes "tabMessages s2 = tabMessages s"
    and "d' \<in> set (directivesOf (newMessages s (safeOpenRouter pf res i u d s2)))"
  shows "d' = d"
proof -
  obtain k where "tabMessages (safeOpenRouter pf res i u d s2)
      = tabMessages s2 @ replicate k (i, OPEN_ROUTER d)"
    using safeOpenRouter_messages by blast
  then have "newMessages s (safeOpenRouter pf res i u d s2) = replicate k (i, OPEN_ROUTER d)"
    using assms(1) by (simp add: newMessages_def)
  with assms(2) show ?thesis
    using directivesOf_replicate [of k i d] by auto
qed

lemma logged_risk_appendLog:
  assumes "stored_logs s2 = stored_logs s"
  shows "loggedRisks (newLogs s (appendLog pf lt e s2))
           = (case entry_risk e of None \<Rightarrow> [] | Some r \<Rightarrow> [r])"
proof -
  obtain pl where "entry pl = e"
    and "stored_logs (appendLog pf lt e s2) = stored_logs s2 @ [pl]"
    using appendLog_logs by blast
  then show ?thesis
    using assms by (simp add: newLogs_def loggedRisks_def)
qed

section \<open>Evaluating the example inputs\<close>

lemmas string_eval = toLowerCase_def lowerChar_def trim_def isSpace_def stripDots_def
  endsWith_def startsWith_def boundaryAfter_def isWordChar_def

lemmas host_eval = hostFromUrl_def isHttpUrl_def normalizeHostEntry_def hostMatchesEntry_def
  isHostInList_def isInternal_def

lemma demo_blocked_url:
  "isHttpUrl demoParse ''https://blocked.example.com/chat''"
  "hostFromUrl demoParse ''https://blocked.example.com/chat'' = ''blocked.example.com''"
  "\<not> isInternal demoPlatform ''https://blocked.example.com/chat''"
  "isHostInList demoParse ''blocked.example.com'' [''example.com'']"
  "isHostInList demoParse ''blocked.example.com'' [''blocked.example.com'']"
  "\<not> isHostInList demoParse ''blocked.example.com'' [''intranet.example.com'']"
  by (simp_all add: string_eval host_eval demoParse_def demoPlatform_def Let_def)

lemma demo_allowed_url:
  "isHttpUrl demoParse ''https://intranet.example.com/''"
  "hostFromUrl demoParse ''https://intranet.example.com/'' = ''intranet.example.com''"
  "isHostInList demoParse ''intranet.example.com'' [''example.com'']"
  "isHostInList demoParse ''intranet.example.com'' [''intranet.example.com'']"
  by (simp_all add: string_eval host_eval demoParse_def Let_def)

lemma demo_chat_url:
  "isHttpUrl demoParse ''https://chat.example.com/''"
  "hostFromUrl demoParse ''https://chat.example.com/'' = ''chat.example.com''"
  "\<not> isInternal demoPlatform ''https://chat.example.com/''"
  "isHostInList demoParse ''chat.example.com'' [''example.com'']"
  "\<not> isHostInList demoParse ''chat.example.com'' [''blocked.example.com'']"
  "\<not> isHostInList demoParse ''chat.example.com'' [''intranet.example.com'']"
  by (simp_all add: string_eval host_eval demoParse_def demoPlatform_def Let_def)

lemma demo_profile:
  "activeProfile demoState = Some strictProfile"
  "activeProfile (bootIfEmpty demoPlatform demoState) = Some strictProfile"
  "getActiveProfileSync (Some demoRules) = Some strictProfile"
  by (simp_all add: activeProfile_def bootIfEmpty_def refreshRules_def getActiveProfileSync_def
      demoState_def demoRules_def emptyState_def strictProfile_def)

lemma demo_state:
  "aiDomainsCache demoState = [''example.com'']"
  "rulesCache demoState = None"
  "stored_rules demoState = Some demoRules"
  "lastOpenMap demoState = Map.empty"
  "consentMap demoState = Map.empty"
  "tabMessages demoState = []"
  "stored_logs demoState = []"
  "stored_userId demoState = ''user-1''"
  "stored_userRole demoState = []"
  by (simp_all add: demoState_def emptyState_def)

lemma demo_strict:
  "pid strictProfile = ''strict''"
  "allowList strictProfile = [''intranet.example.com'']"
  "blockList strictProfile = [''blocked.example.com'']"
  "trackPrompts strictProfile = ''anonymized''"
  by (simp_all add: strictProfile_def)

lemma demo_platform:
  "parseUrl demoPlatform = demoParse"
  "digest demoPlatform = demoDigest"
  by (simp_all add: demoPlatform_def)

lemma demo_tick:
  "tk_now demoTick = 1700000000000"
  "tk_sendResult demoTick = Delivered"
  "tk_logTime demoTick = 1700000000050"
  by (simp_all add: demoTick_def)

lemmas demo_facts = demo_blocked_url demo_allowed_url demo_chat_url demo_profile demo_state
  demo_strict demo_platform demo_tick

section \<open>The block list and the allow list on the three trigger paths\<close>

lemma shouldPrompt_blocked [simp]:
  "shouldPromptForProfile prof True"
  by (simp add: shouldPromptForProfile_def split: option.splits)

lemma blocklist_tab:
  assumes "activeProfile (bootIfEmpty pf s) = Some p"
    and "isHostInList (parseUrl pf) (hostFromUrl (parseUrl pf) (tab_url t)) (blockList p)"
  shows "(\<forall>d\<in>set (directivesOf (newMessages s (tabsOnUpdated pf tk tabId status t s))).
            d_risk d = 100)
     \<and> (\<forall>r\<in>set (loggedRisks (newLogs s (tabsOnUpdated pf tk tabId status t s))). r = 100)"
proof (cases "shouldOpenRouter (tk_now tk) (Some tabId) (hostFromUrl (parseUrl pf) (tab_url t))
           (refreshRules (bootIfEmpty pf s))")
  case (Pair b s2)
  note fr = shouldOpenRouter_frame [OF Pair]
  show ?thesis
    using assms Pair fr
    by (cases b)
       (auto simp: tabsOnUpdated_def activeProfile_def Let_def nothing_new logged_risk_appendLog
          dest: sent_directive_is [rotated])
qed

lemma blocklist_ui:
  assumes prof: "activeProfile s = Some p"
    and url: "pageUrl = (if msgPageUrl \<noteq> [] then msgPageUrl else senderTabUrl sender)"
    and block: "isHostInList (parseUrl pf) (hostFromUrl (parseUrl pf) pageUrl) (blockList p)"
  shows "(\<forall>d\<in>set (directivesOf (newMessages s
              (snd (onAiUiDetected pf tk msgPageUrl signals sens isAi sender s)))). d_risk d = 100)
     \<and> (\<forall>r\<in>set (loggedRisks (newLogs s
              (snd (onAiUiDetected pf tk msgPageUrl signals sens isAi sender s)))). r = 100)"
proof -
  let ?host = "hostFromUrl (parseUrl pf) pageUrl"
  let ?run = "onAiUiDetected pf tk msgPageUrl signals sens isAi sender s"
  from prof have prof': "getActiveProfileSync (rulesCache (refreshRules s)) = Some p"
    by (simp add: activeProfile_def)
  obtain b s2 where adm: "shouldOpenRouter (tk_now tk)
           (Some (case senderTabId sender of None \<Rightarrow> - 1 | Some i \<Rightarrow> i)) ?host (refreshRules s)
         = (b, s2)"
    by (cases "shouldOpenRouter (tk_now tk)
           (Some (case senderTabId sender of None \<Rightarrow> - 1 | Some i \<Rightarrow> i)) ?host (refreshRules s)")
  note fr = shouldOpenRouter_frame [OF adm]
  consider (nohttp) "\<not> isHttpUrl (parseUrl pf) pageUrl"
    | (allowed) "isHttpUrl (parseUrl pf) pageUrl"
        "isHostInList (parseUrl pf) ?host (allowList p)"
    | (refused) "isHttpUrl (parseUrl pf) pageUrl"
        "\<not> isHostInList (parseUrl pf) ?host (allowList p)" "\<not> b"
    | (nosender) "isHttpUrl (parseUrl pf) pageUrl"
        "\<not> isHostInList (parseUrl pf) ?host (allowList p)" "b" "senderTabId sender = None"
    | (fired) tid where "isHttpUrl (parseUrl pf) pageUrl"
        "\<not> isHostInList (parseUrl pf) ?host (allowList p)" "b" "senderTabId sender = Some tid"
    by (cases "senderTabId sender") auto
  then show ?thesis
  proof cases
    case nohttp
    then have "?run = (Suppressed, s)"
      by (simp add: onAiUiDetected_def url [symmetric])
    then show ?thesis
      by (simp add: nothing_new)
  next
    case allowed
    then have "?run = (Suppressed,
        appendLog pf (tk_logTime tk) (UiDetectedSuppressed pageUrl ?host) (refreshRules s))"
      using prof' by (simp add: onAiUiDetected_def url [symmetric] Let_def)
    then show ?thesis
      by (simp add: nothing_new logged_risk_appendLog)
  next
    case refused
    then have "?run = (Suppressed, s2)"
      using prof' block adm
      by (simp add: onAiUiDetected_def url [symmetric] Let_def)
    then show ?thesis
      using fr by (simp add: nothing_new)
  next
    case nosender
    then have "?run = (HandlerError, s2)"
      using prof' block adm
      by (simp add: onAiUiDetected_def url [symmetric] Let_def)
    then show ?thesis
      using fr by (simp add: nothing_new)
  next
    case fired
    then have "\<exists>c. ?run = (Ok,
        appendLog pf (tk_logTime tk)
          (UiDetected pageUrl ?host (take 5 signals) sens 100 (pid p) True)
          (safeOpenRouter pf (tk_sendResult tk) tid pageUrl
             \<lparr>d_reason = ''This site is blocked by policy'', d_context = c, d_risk = 100,
              d_profileId = pid p\<rparr> s2))"
      using prof' block adm
      by (simp add: onAiUiDetected_def url [symmetric] Let_def) (rule exI, rule refl)
    then obtain c where run: "?run = (Ok,
        appendLog pf (tk_logTime tk)
          (UiDetected pageUrl ?host (take 5 signals) sens 100 (pid p) True)
          (safeOpenRouter pf (tk_sendResult tk) tid pageUrl
             \<lparr>d_reason = ''This site is blocked by policy'', d_context = c, d_risk = 100,
              d_profileId = pid p\<rparr> s2))"
      by blast
    show ?thesis
      unfolding run using fr
      by (auto simp: logged_risk_appendLog dest: sent_directive_is [rotated])
  qed
qed

lemma blocklist_sweep:
  assumes "isHostInList (parseUrl pf) (hostFromUrl (parseUrl pf) (tab_url t)) (blockList p)"
  shows "(\<forall>d\<in>set (directivesOf (newMessages s (reevaluateTab pf (Some p) tk t s))).
            d_risk d = 100)
     \<and> (\<forall>r\<in>set (loggedRisks (newLogs s (reevaluateTab pf (Some p) tk t s))). r = 100)"
proof (cases "shouldOpenRouter (tk_now tk) (tab_id t) (hostFromUrl (parseUrl pf) (tab_url t)) s")
  case (Pair b s2)
  note fr = shouldOpenRouter_frame [OF Pair]
  show ?thesis
    using assms Pair fr
    by (cases b; cases "tab_id t")
       (auto simp: reevaluateTab_def Let_def nothing_new logged_risk_appendLog
          dest: sent_directive_is [rotated])
qed

lemma sent_directive_nonempty:
  assumes "tabMessages s2 = tabMessages s" and "u \<noteq> []" and "isHttpUrl (parseUrl pf) u"
  shows "directivesOf (newMessages s (safeOpenRouter pf res i u d s2)) \<noteq> []"
  using assms
  by (cases res) (simp_all add: safeOpenRouter_def newMessages_def directivesOf_def Let_def)

lemma blocked_admitted_tab:
  assumes "status = ''complete''" and "tab_url t \<noteq> []"
    and "isHttpUrl (parseUrl pf) (tab_url t)"
    and "isAiDomainHost pf (bootIfEmpty pf s) (hostFromUrl (parseUrl pf) (tab_url t))"
    and "activeProfile (bootIfEmpty pf s) = Some p"
    and "\<not> isHostInList (parseUrl pf) (hostFromUrl (parseUrl pf) (tab_url t)) (allowList p)"
    and "isHostInList (parseUrl pf) (hostFromUrl (parseUrl pf) (tab_url t)) (blockList p)"
    and "fst (shouldOpenRouter (tk_now tk) (Some tabId) (hostFromUrl (parseUrl pf) (tab_url t))
           (refreshRules (bootIfEmpty pf s)))"
  shows "directivesOf (newMessages s (tabsOnUpdated pf tk tabId status t s)) \<noteq> []
     \<and> (\<forall>d\<in>set (directivesOf (newMessages s (tabsOnUpdated pf tk tabId status t s))).
            d_risk d = 100)
     \<and> loggedRisks (newLogs s (tabsOnUpdated pf tk tabId status t s)) = [100]"
proof (cases "shouldOpenRouter (tk_now tk) (Some tabId) (hostFromUrl (parseUrl pf) (tab_url t))
           (refreshRules (bootIfEmpty pf s))")
  case (Pair b s2)
  note fr = shouldOpenRouter_frame [OF Pair]
  from assms(8) Pair have b: "b" by simp
  show ?thesis
    using assms(1-7) Pair fr b
    by (auto simp: tabsOnUpdated_def activeProfile_def Let_def logged_risk_appendLog
        sent_directive_nonempty dest: sent_directive_is [rotated])
qed

lemma blocked_admitted_ui:
  assumes url: "pageUrl = (if msgPageUrl \<noteq> [] then msgPageUrl else senderTabUrl sender)"
    and nonempty: "pageUrl \<noteq> []"
    and http: "isHttpUrl (parseUrl pf) pageUrl"
    and prof: "activeProfile s = Some p"
    and nallow: "\<not> isHostInList (parseUrl pf) (hostFromUrl (parseUrl pf) pageUrl) (allowList p)"
    and block: "isHostInList (parseUrl pf) (hostFromUrl (parseUrl pf) pageUrl) (blockList p)"
    and tid: "senderTabId sender = Some tid"
    and adm: "fst (shouldOpenRouter (tk_now tk) (Some tid) (hostFromUrl (parseUrl pf) pageUrl)
           (refreshRules s))"
  shows "fst (onAiUiDetected pf tk msgPageUrl signals sens isAi sender s) = Ok
     \<and> directivesOf (newMessages s
          (snd (onAiUiDetected pf tk msgPageUrl signals sens isAi sender s))) \<noteq> []
     \<and> (\<forall>d\<in>set (directivesOf (newMessages s
              (snd (onAiUiDetected pf tk msgPageUrl signals sens isAi sender s)))). d_risk d = 100)
     \<and> loggedRisks (newLogs s
          (snd (onAiUiDetected pf tk msgPageUrl signals sens isAi sender s))) = [100]"
proof -
  let ?host = "hostFromUrl (parseUrl pf) pageUrl"
  let ?run = "onAiUiDetected pf tk msgPageUrl signals sens isAi sender s"
  from prof have prof': "getActiveProfileSync (rulesCache (refreshRules s)) = Some p"
    by (simp add: activeProfile_def)
  obtain b s2 where sor: "shouldOpenRouter (tk_now tk) (Some tid) ?host (refreshRules s) = (b, s2)"
    by (cases "shouldOpenRouter (tk_now tk) (Some tid) ?host (refreshRules s)")
  with adm have b: "b" by simp
  note fr = shouldOpenRouter_frame [OF sor]
  have "\<exists>c. ?run = (Ok,
        appendLog pf (tk_logTime tk)
          (UiDetected pageUrl ?host (take 5 signals) sens 100 (pid p) True)
          (safeOpenRouter pf (tk_sendResult tk) tid pageUrl
             \<lparr>d_reason = ''This site is blocked by policy'', d_context = c, d_risk = 100,
              d_profileId = pid p\<rparr> s2))"
    using prof' block nallow http sor b tid
    by (simp add: onAiUiDetected_def url [symmetric] Let_def) (rule exI, rule refl)
  then obtain c where run: "?run = (Ok,
        appendLog pf (tk_logTime tk)
          (UiDetected pageUrl ?host (take 5 signals) sens 100 (pid p) True)
          (safeOpenRouter pf (tk_sendResult tk) tid pageUrl
             \<lparr>d_reason = ''This site is blocked by policy'', d_context = c, d_risk = 100,
              d_profileId = pid p\<rparr> s2))"
    by blast
  show ?thesis
    unfolding run using fr http nonempty
    by (auto simp: logged_risk_appendLog sent_directive_nonempty dest: sent_directive_is [rotated])
qed

lemma blocked_admitted_sweep:
  assumes "tab_id t = Some tid" and "tid \<noteq> 0" and "tab_url t \<noteq> []"
    and "isHttpUrl (parseUrl pf) (tab_url t)"
    and "hostFromUrl (parseUrl pf) (tab_url t) \<noteq> []"
    and "isAiDomainHost pf s (hostFromUrl (parseUrl pf) (tab_url t))"
    and "\<not> isHostInList (parseUrl pf) (hostFromUrl (parseUrl pf) (tab_url t)) (allowList p)"
    and "isHostInList (parseUrl pf) (hostFromUrl (parseUrl pf) (tab_url t)) (blockList p)"
    and "fst (shouldOpenRouter (tk_now tk) (Some tid) (hostFromUrl (parseUrl pf) (tab_url t)) s)"
  shows "directivesOf (newMessages s (reevaluateTab pf (Some p) tk t s)) \<noteq> []
     \<and> (\<forall>d\<in>set (directivesOf (newMessages s (reevaluateTab pf (Some p) tk t s))).
            d_risk d = 100)
     \<and> loggedRisks (newLogs s (reevaluateTab pf (Some p) tk t s)) = [100]"
proof (cases "shouldOpenRouter (tk_now tk) (Some tid) (hostFromUrl (parseUrl pf) (tab_url t)) s")
  case (Pair b s2)
  note fr = shouldOpenRouter_frame [OF Pair]
  from assms(9) Pair have b: "b" by simp
  show ?thesis
    using assms(1-8) Pair fr b
    by (auto simp: reevaluateTab_def Let_def logged_risk_appendLog
        sent_directive_nonempty dest: sent_directive_is [rotated])
qed

text \<open>
  C2. On each of the three trigger paths (a tab that finished loading, an
  \<open>AI_UI_DETECTED\<close> message, and the body of the re-evaluation sweep applied to a tab),
  if the host matches the block list of the profile the path resolves, then every
  directive the run sends and every risk value the run writes to the log is exactly 100,
  whatever \<open>computeRiskScore\<close> returns. And on each path a run that gets as far as
  admission for such a host (an http(s) page, not allow-listed, admitted by
  \<open>shouldOpenRouter\<close>) does send a directive and does write one risk value to the log,
  both 100.
\<close>

theorem blocklist_forces_risk_100:
  "(activeProfile (bootIfEmpty pf s) = Some p
      \<and> isHostInList (parseUrl pf) (hostFromUrl (parseUrl pf) (tab_url t)) (blockList p) \<longrightarrow>
      (\<forall>d\<in>set (directivesOf (newMessages s (tabsOnUpdated pf tk tabId status t s))).
          d_risk d = 100)
      \<and> (\<forall>r\<in>set (loggedRisks (newLogs s (tabsOnUpdated pf tk tabId status t s))). r = 100))
   \<and> (activeProfile s = Some p
      \<and> pageUrl = (if msgPageUrl \<noteq> [] then msgPageUrl else senderTabUrl sender)
      \<and> isHostInList (parseUrl pf) (hostFromUrl (parseUrl pf) pageUrl) (blockList p) \<longrightarrow>
      (\<forall>d\<in>set (directivesOf (newMessages s
            (snd (onAiUiDetected pf tk msgPageUrl signals sens isAi sender s)))). d_risk d = 100)
      \<and> (\<forall>r\<in>set (loggedRisks (newLogs s
            (snd (onAiUiDetected pf tk msgPageUrl signals sens isAi sender s)))). r = 100))
   \<and> (isHostInList (parseUrl pf) (hostFromUrl (parseUrl pf) (tab_url t)) (blockList p) \<longrightarrow>
      (\<forall>d\<in>set (directivesOf (newMessages s (reevaluateTab pf (Some p) tk t s))).
          d_risk d = 100)
      \<and> (\<forall>r\<in>set (loggedRisks (newLogs s (reevaluateTab pf (Some p) tk t s))). r = 100))
   \<and> (status = ''complete'' \<and> tab_url t \<noteq> [] \<and> isHttpUrl (parseUrl pf) (tab_url t)
      \<and> isAiDomainHost pf (bootIfEmpty pf s) (hostFromUrl (parseUrl pf) (tab_url t))
      \<and> activeProfile (bootIfEmpty pf s) = Some p
      \<and> \<not> isHostInList (parseUrl pf) (hostFromUrl (parseUrl pf) (tab_url t)) (allowList p)
      \<and> isHostInList (parseUrl pf) (hostFromUrl (parseUrl pf) (tab_url t)) (blockList p)
      \<and> fst (shouldOpenRouter (tk_now tk) (Some tabId) (hostFromUrl (parseUrl pf) (tab_url t))
             (refreshRules (bootIfEmpty pf s))) \<longrightarrow>
      directivesOf (newMessages s (tabsOnUpdated pf tk tabId status t s)) \<noteq> []
      \<and> loggedRisks (newLogs s (tabsOnUpdated pf tk tabId status t s)) = [100])
   \<and> (pageUrl = (if msgPageUrl \<noteq> [] then msgPageUrl else senderTabUrl sender)
      \<and> pageUrl \<noteq> [] \<and> isHttpUrl (parseUrl pf) pageUrl
      \<and> activeProfile s = Some p
      \<and> \<not> isHostInList (parseUrl pf) (hostFromUrl (parseUrl pf) pageUrl) (allowList p)
      \<and> isHostInList (parseUrl pf) (hostFromUrl (parseUrl pf) pageUrl) (blockList p)
      \<and> senderTabId sender = Some tid
      \<and> fst (shouldOpenRouter (tk_now tk) (Some tid) (hostFromUrl (parseUrl pf) pageUrl)
             (refreshRules s)) \<longrightarrow>
      fst (onAiUiDetected pf tk msgPageUrl signals sens isAi sender s) = Ok
      \<and> directivesOf (newMessages s
           (snd (onAiUiDetected pf tk msgPageUrl signals sens isAi sender s))) \<noteq> []
      \<and> loggedRisks (newLogs s
           (snd (onAiUiDetected pf tk msgPageUrl signals sens isAi sender s))) = [100])
   \<and> (tab_id t = Some tid \<and> tid \<noteq> 0 \<and> tab_url t \<noteq> []
      \<and> isHttpUrl (parseUrl pf) (tab_url t)
      \<and> hostFromUrl (parseUrl pf) (tab_url t) \<noteq> []
      \<and> isAiDomainHost pf s (hostFromUrl (parseUrl pf) (tab_url t))
      \<and> \<not> isHostInList (parseUrl pf) (hostFromUrl (parseUrl pf) (tab_url t)) (allowList p)
      \<and> isHostInList (parseUrl pf) (hostFromUrl (parseUrl pf) (tab_url t)) (blockList p)
      \<and> fst (shouldOpenRouter (tk_now tk) (Some tid) (hostFromUrl (parseUrl pf) (tab_url t)) s)
      \<longrightarrow>
      directivesOf (newMessages s (reevaluateTab pf (Some p) tk t s)) \<noteq> []
      \<and> loggedRisks (newLogs s (reevaluateTab pf (Some p) tk t s)) = [100])"
proof (intro conjI)
  show "activeProfile (bootIfEmpty pf s) = Some p
      \<and> isHostInList (parseUrl pf) (hostFromUrl (parseUrl pf) (tab_url t)) (blockList p) \<longrightarrow>
      (\<forall>d\<in>set (directivesOf (newMessages s (tabsOnUpdated pf tk tabId status t s))).
          d_risk d = 100)
      \<and> (\<forall>r\<in>set (loggedRisks (newLogs s (tabsOnUpdated pf tk tabId status t s))). r = 100)"
    using blocklist_tab [of pf s p t tk tabId status] by blast
  show "activeProfile s = Some p
      \<and> pageUrl = (if msgPageUrl \<noteq> [] then msgPageUrl else senderTabUrl sender)
      \<and> isHostInList (parseUrl pf) (hostFromUrl (parseUrl pf) pageUrl) (blockList p) \<longrightarrow>
      (\<forall>d\<in>set (directivesOf (newMessages s
            (snd (onAiUiDetected pf tk msgPageUrl signals sens isAi sender s)))). d_risk d = 100)
      \<and> (\<forall>r\<in>set (loggedRisks (newLogs s
            (snd (onAiUiDetected pf tk msgPageUrl signals sens isAi sender s)))). r = 100)"
    using blocklist_ui [of s p pageUrl msgPageUrl sender pf tk signals sens isAi] by blast
  show "isHostInList (parseUrl pf) (hostFromUrl (parseUrl pf) (tab_url t)) (blockList p) \<longrightarrow>
      (\<forall>d\<in>set (directivesOf (newMessages s (reevaluateTab pf (Some p) tk t s))).
          d_risk d = 100)
      \<and> (\<forall>r\<in>set (loggedRisks (newLogs s (reevaluateTab pf (Some p) tk t s))). r = 100)"
    using blocklist_sweep [of pf t p s tk] by blast
  show "status = ''complete'' \<and> tab_url t \<noteq> [] \<and> isHttpUrl (parseUrl pf) (tab_url t)
      \<and> isAiDomainHost pf (bootIfEmpty pf s) (hostFromUrl (parseUrl pf) (tab_url t))
      \<and> activeProfile (bootIfEmpty pf s) = Some p
      \<and> \<not> isHostInList (parseUrl pf) (hostFromUrl (parseUrl pf) (tab_url t)) (allowList p)
      \<and> isHostInList (parseUrl pf) (hostFromUrl (parseUrl pf) (tab_url t)) (blockList p)
      \<and> fst (shouldOpenRouter (tk_now tk) (Some tabId) (hostFromUrl (parseUrl pf) (tab_url t))
             (refreshRules (bootIfEmpty pf s))) \<longrightarrow>
      directivesOf (newMessages s (tabsOnUpdated pf tk tabId status t s)) \<noteq> []
      \<and> loggedRisks (newLogs s (tabsOnUpdated pf tk tabId status t s)) = [100]"
    using blocked_admitted_tab [of status t pf s p tk tabId] by blast
  show "pageUrl = (if msgPageUrl \<noteq> [] then msgPageUrl else senderTabUrl sender)
      \<and> pageUrl \<noteq> [] \<and> isHttpUrl (parseUrl pf) pageUrl
      \<and> activeProfile s = Some p
      \<and> \<not> isHostInList (parseUrl pf) (hostFromUrl (parseUrl pf) pageUrl) (allowList p)
      \<and> isHostInList (parseUrl pf) (hostFromUrl (parseUrl pf) pageUrl) (blockList p)
      \<and> senderTabId sender = Some tid
      \<and> fst (shouldOpenRouter (tk_now tk) (Some tid) (hostFromUrl (parseUrl pf) pageUrl)
             (refreshRules s)) \<longrightarrow>
      fst (onAiUiDetected pf tk msgPageUrl signals sens isAi sender s) = Ok
      \<and> directivesOf (newMessages s
           (snd (onAiUiDetected pf tk msgPageUrl signals sens isAi sender s))) \<noteq> []
      \<and> loggedRisks (newLogs s
           (snd (onAiUiDetected pf tk msgPageUrl signals sens isAi sender s))) = [100]"
    using blocked_admitted_ui [of pageUrl msgPageUrl sender pf s p tid tk signals sens isAi]
    by blast
  show "tab_id t = Some tid \<and> tid \<noteq> 0 \<and> tab_url t \<noteq> []
      \<and> isHttpUrl (parseUrl pf) (tab_url t)
      \<and> hostFromUrl (parseUrl pf) (tab_url t) \<noteq> []
      \<and> isAiDomainHost pf s (hostFromUrl (parseUrl pf) (tab_url t))
      \<and> \<not> isHostInList (parseUrl pf) (hostFromUrl (parseUrl pf) (tab_url t)) (allowList p)
      \<and> isHostInList (parseUrl pf) (hostFromUrl (parseUrl pf) (tab_url t)) (blockList p)
      \<and> fst (shouldOpenRouter (tk_now tk) (Some tid) (hostFromUrl (parseUrl pf) (tab_url t)) s)
      \<longrightarrow>
      directivesOf (newMessages s (reevaluateTab pf (Some p) tk t s)) \<noteq> []
      \<and> loggedRisks (newLogs s (reevaluateTab pf (Some p) tk t s)) = [100]"
    using blocked_admitted_sweep [of t tid pf s p tk] by blast
qed

lemma demo_blocked_admitted:
  "lastOpenMap s = Map.empty \<Longrightarrow> consentMap s = Map.empty \<Longrightarrow>
     fst (shouldOpenRouter (tk_now demoTick) (Some 7) ''blocked.example.com'' s)"
  by (simp add: shouldOpenRouter_def consentActive_def js_or_def OPEN_COOLDOWN_MS_def demo_tick)

lemma all_risk_100:
  "xs \<noteq> [] \<Longrightarrow> \<forall>d\<in>set xs. d_risk d = 100 \<Longrightarrow> d_risk ` set xs = {100}"
  by (cases xs) auto

text \<open>
  The three paths at a block-listed AI host whose weighted score is below 100: each sends
  directives, all of risk 100, and logs the one risk 100.
\<close>

theorem blocklist_forces_risk_100_witness:
  "computeRiskScore
     \<lparr>isAiDomain = True, aiUiSignals = [], sensitiveFields = Map.empty,
      isInternalSite = False, blocklisted = True\<rparr> strictProfile = 40
   \<and> d_risk ` set (directivesOf (newMessages demoState
        (tabsOnUpdated demoPlatform demoTick 7 ''complete'' blockedTab demoState))) = {100}
   \<and> loggedRisks (newLogs demoState
        (tabsOnUpdated demoPlatform demoTick 7 ''complete'' blockedTab demoState)) = [100]
   \<and> d_risk ` set (directivesOf (newMessages demoState
        (snd (onAiUiDetected demoPlatform demoTick ''https://blocked.example.com/chat'' []
           Map.empty (Some True) (Some blockedTab) demoState)))) = {100}
   \<and> loggedRisks (newLogs demoState
        (snd (onAiUiDetected demoPlatform demoTick ''https://blocked.example.com/chat'' []
           Map.empty (Some True) (Some blockedTab) demoState))) = [100]
   \<and> d_risk ` set (directivesOf (newMessages demoState
        (reevaluateTab demoPlatform (Some strictProfile) demoTick blockedTab demoState))) = {100}
   \<and> loggedRisks (newLogs demoState
        (reevaluateTab demoPlatform (Some strictProfile) demoTick blockedTab demoState)) = [100]"
proof -
  have score: "computeRiskScore
     \<lparr>isAiDomain = True, aiUiSignals = [], sensitiveFields = Map.empty,
      isInternalSite = False, blocklisted = True\<rparr> strictProfile = 40"
    by (simp add: computeRiskScore_def strictProfile_def sensitiveKinds_def js_or_def)
  have url: "tab_url blockedTab = ''https://blocked.example.com/chat''"
    "tab_id blockedTab = Some 7" "senderTabId (Some blockedTab) = Some 7"
    by (simp_all add: blockedTab_def senderTabId_def)
  have host: "hostFromUrl (parseUrl demoPlatform) ''https://blocked.example.com/chat''
       = ''blocked.example.com''"
    "isHttpUrl (parseUrl demoPlatform) ''https://blocked.example.com/chat''"
    by (simp_all add: demo_facts)
  have lists: "isAiDomainHost demoPlatform demoState ''blocked.example.com''"
    "isAiDomainHost demoPlatform (bootIfEmpty demoPlatform demoState) ''blocked.example.com''"
    "\<not> isHostInList (parseUrl demoPlatform) ''blocked.example.com'' (allowList strictProfile)"
    "isHostInList (parseUrl demoPlatform) ''blocked.example.com'' (blockList strictProfile)"
    by (simp_all add: isAiDomainHost_def bootIfEmpty_def demo_facts)
  have adm: "fst (shouldOpenRouter (tk_now demoTick) (Some 7) ''blocked.example.com'' demoState)"
    "fst (shouldOpenRouter (tk_now demoTick) (Some 7) ''blocked.example.com''
       (refreshRules demoState))"
    "fst (shouldOpenRouter (tk_now demoTick) (Some 7) ''blocked.example.com''
       (refreshRules (bootIfEmpty demoPlatform demoState)))"
    by (simp_all add: demo_blocked_admitted demo_state)
  note inst = blocklist_forces_risk_100 [where pf = demoPlatform and s = demoState
      and p = strictProfile and t = blockedTab and tk = demoTick and tabId = 7
      and status = "''complete''" and pageUrl = "''https://blocked.example.com/chat''"
      and msgPageUrl = "''https://blocked.example.com/chat''" and sender = "Some blockedTab"
      and signals = "[]" and sens = "Map.empty" and isAi = "Some True" and tid = 7,
      unfolded url host]
  have h1: "activeProfile (bootIfEmpty demoPlatform demoState) = Some strictProfile
      \<and> isHostInList (parseUrl demoPlatform) ''blocked.example.com'' (blockList strictProfile)"
    using lists demo_profile by blast
  have h2: "activeProfile demoState = Some strictProfile
      \<and> ''https://blocked.example.com/chat''
         = (if ''https://blocked.example.com/chat'' \<noteq> [] then ''https://blocked.example.com/chat''
            else senderTabUrl (Some blockedTab))
      \<and> isHostInList (parseUrl demoPlatform) ''blocked.example.com'' (blockList strictProfile)"
    using lists demo_profile by simp
  have h3: "isHostInList (parseUrl demoPlatform) ''blocked.example.com'' (blockList strictProfile)"
    using lists by blast
  have h4: "''complete'' = ''complete'' \<and> ''https://blocked.example.com/chat'' \<noteq> []
      \<and> isHttpUrl (parseUrl demoPlatform) ''https://blocked.example.com/chat''
      \<and> isAiDomainHost demoPlatform (bootIfEmpty demoPlatform demoState) ''blocked.example.com''
      \<and> activeProfile (bootIfEmpty demoPlatform demoState) = Some strictProfile
      \<and> \<not> isHostInList (parseUrl demoPlatform) ''blocked.example.com'' (allowList strictProfile)
      \<and> isHostInList (parseUrl demoPlatform) ''blocked.example.com'' (blockList strictProfile)
      \<and> fst (shouldOpenRouter (tk_now demoTick) (Some 7) ''blocked.example.com''
             (refreshRules (bootIfEmpty demoPlatform demoState)))"
    using lists demo_profile adm host by simp
  have h5: "''https://blocked.example.com/chat''
         = (if ''https://blocked.example.com/chat'' \<noteq> [] then ''https://blocked.example.com/chat''
            else senderTabUrl (Some blockedTab))
      \<and> ''https://blocked.example.com/chat'' \<noteq> []
      \<and> isHttpUrl (parseUrl demoPlatform) ''https://blocked.example.com/chat''
      \<and> activeProfile demoState = Some strictProfile
      \<and> \<not> isHostInList (parseUrl demoPlatform) ''blocked.example.com'' (allowList strictProfile)
      \<and> isHostInList (parseUrl demoPlatform) ''blocked.example.com'' (blockList strictProfile)
      \<and> Some (7::int) = Some 7
      \<and> fst (shouldOpenRouter (tk_now demoTick) (Some 7) ''blocked.example.com''
             (refreshRules demoState))"
    using lists demo_profile adm host by simp
  have h6: "Some (7::int) = Some 7 \<and> (7::int) \<noteq> 0 \<and> ''https://blocked.example.com/chat'' \<noteq> []
      \<and> isHttpUrl (parseUrl demoPlatform) ''https://blocked.example.com/chat''
      \<and> ''blocked.example.com'' \<noteq> []
      \<and> isAiDomainHost demoPlatform demoState ''blocked.example.com''
      \<and> \<not> isHostInList (parseUrl demoPlatform) ''blocked.example.com'' (allowList strictProfile)
      \<and> isHostInList (parseUrl demoPlatform) ''blocked.example.com'' (blockList strictProfile)
      \<and> fst (shouldOpenRouter (tk_now demoTick) (Some 7) ''blocked.example.com'' demoState)"
    using lists adm host by simp
  note c1 = inst [THEN conjunct1, THEN mp, OF h1]
  note c2 = inst [THEN conjunct2, THEN conjunct1, THEN mp, OF h2]
  note c3 = inst [THEN conjunct2, THEN conjunct2, THEN conjunct1, THEN mp, OF h3]
  note c4 = inst [THEN conjunct2, THEN conjunct2, THEN conjunct2, THEN conjunct1, THEN mp, OF h4]
  note c5 = inst [THEN conjunct2, THEN conjunct2, THEN conjunct2, THEN conjunct2, THEN conjunct1,
      THEN mp, OF h5]
  note c6 = inst [THEN conjunct2, THEN conjunct2, THEN conjunct2, THEN conjunct2, THEN conjunct2,
      THEN mp, OF h6]
  from score c1 c2 c3 c4 c5 c6 have run:
    "computeRiskScore
       \<lparr>isAiDomain = True, aiUiSignals = [], sensitiveFields = Map.empty,
        isInternalSite = False, blocklisted = True\<rparr> strictProfile = 40
     \<and> directivesOf (newMessages demoState
          (tabsOnUpdated demoPlatform demoTick 7 ''complete'' blockedTab demoState)) \<noteq> []
     \<and> (\<forall>d\<in>set (directivesOf (newMessages demoState
          (tabsOnUpdated demoPlatform demoTick 7 ''complete'' blockedTab demoState))). d_risk d = 100)
     \<and> loggedRisks (newLogs demoState
          (tabsOnUpdated demoPlatform demoTick 7 ''complete'' blockedTab demoState)) = [100]
     \<and> directivesOf (newMessages demoState
          (snd (onAiUiDetected demoPlatform demoTick ''https://blocked.example.com/chat'' []
             Map.empty (Some True) (Some blockedTab) demoState))) \<noteq> []
     \<and> (\<forall>d\<in>set (directivesOf (newMessages demoState
          (snd (onAiUiDetected demoPlatform demoTick ''https://blocked.example.com/chat'' []
             Map.empty (Some True) (Some blockedTab) demoState)))). d_risk d = 100)
     \<and> loggedRisks (newLogs demoState
          (snd (onAiUiDetected demoPlatform demoTick ''https://blocked.example.com/chat'' []
             Map.empty (Some True) (Some blockedTab) demoState))) = [100]
     \<and> directivesOf (newMessages demoState
          (reevaluateTab demoPlatform (Some strictProfile) demoTick blockedTab demoState)) \<noteq> []
     \<and> (\<forall>d\<in>set (directivesOf (newMessages demoState
          (reevaluateTab demoPlatform (Some strictProfile) demoTick blockedTab demoState))).
           d_risk d = 100)
     \<and> loggedRisks (newLogs demoState
          (reevaluateTab demoPlatform (Some strictProfile) demoTick blockedTab demoState)) = [100]"
    unfolding url by blast
  then show ?thesis
    by (intro conjI all_risk_100) blast+
qed

lemma allow_tab:
  assumes "activeProfile (bootIfEmpty pf s) = Some p"
    and "isHostInList (parseUrl pf) (hostFromUrl (parseUrl pf) (tab_url t)) (allowList p)"
  shows "tabMessages (tabsOnUpdated pf tk tabId status t s) = tabMessages s
     \<and> stored_logs (tabsOnUpdated pf tk tabId status t s) = stored_logs s
     \<and> lastOpenMap (tabsOnUpdated pf tk tabId status t s) = lastOpenMap s
     \<and> consentMap (tabsOnUpdated pf tk tabId status t s) = consentMap s"
  using assms
  by (simp add: tabsOnUpdated_def activeProfile_def Let_def)

lemma allow_ui:
  assumes "activeProfile s = Some p"
    and url: "pageUrl = (if msgPageUrl \<noteq> [] then msgPageUrl else senderTabUrl sender)"
    and "isHostInList (parseUrl pf) (hostFromUrl (parseUrl pf) pageUrl) (allowList p)"
  shows "fst (onAiUiDetected pf tk msgPageUrl signals sens isAi sender s) = Suppressed
     \<and> tabMessages (snd (onAiUiDetected pf tk msgPageUrl signals sens isAi sender s))
         = tabMessages s
     \<and> loggedRisks (newLogs s (snd (onAiUiDetected pf tk msgPageUrl signals sens isAi sender s)))
         = []
     \<and> lastOpenMap (snd (onAiUiDetected pf tk msgPageUrl signals sens isAi sender s))
         = lastOpenMap s
     \<and> consentMap (snd (onAiUiDetected pf tk msgPageUrl signals sens isAi sender s))
         = consentMap s"
  using assms(1,3)
  by (simp add: onAiUiDetected_def url [symmetric] activeProfile_def Let_def nothing_new
      logged_risk_appendLog)

lemma allow_sweep:
  assumes "isHostInList (parseUrl pf) (hostFromUrl (parseUrl pf) (tab_url t)) (allowList p)"
  shows "reevaluateTab pf (Some p) tk t s = s"
  using assms
  by (simp add: reevaluateTab_def Let_def split: option.splits)

text \<open>
  C3. On each of the three trigger paths, if the host matches the allow list of the
  profile the path resolves, the run stops before scoring and before admission: it sends
  no message to any tab, so no \<open>OPEN_ROUTER\<close> directive; it leaves the last-open map and
  the consent map as they were, so \<open>shouldOpenRouter\<close> admitted nothing; and nothing it
  writes to the log carries a risk value. The tab listener writes no log entry at all,
  the \<open>AI_UI_DETECTED\<close> branch answers that the signal was suppressed, and the body of
  the sweep leaves the whole state unchanged.
\<close>

theorem allowlist_short_circuit:
  "(activeProfile (bootIfEmpty pf s) = Some p
      \<and> isHostInList (parseUrl pf) (hostFromUrl (parseUrl pf) (tab_url t)) (allowList p) \<longrightarrow>
      tabMessages (tabsOnUpdated pf tk tabId status t s) = tabMessages s
      \<and> stored_logs (tabsOnUpdated pf tk tabId status t s) = stored_logs s
      \<and> lastOpenMap (tabsOnUpdated pf tk tabId status t s) = lastOpenMap s
      \<and> consentMap (tabsOnUpdated pf tk tabId status t s) = consentMap s)
   \<and> (activeProfile s = Some p
      \<and> pageUrl = (if msgPageUrl \<noteq> [] then msgPageUrl else senderTabUrl sender)
      \<and> isHostInList (parseUrl pf) (hostFromUrl (parseUrl pf) pageUrl) (allowList p) \<longrightarrow>
      fst (onAiUiDetected pf tk msgPageUrl signals sens isAi sender s) = Suppressed
      \<and> tabMessages (snd (onAiUiDetected pf tk msgPageUrl signals sens isAi sender s))
          = tabMessages s
      \<and> loggedRisks (newLogs s (snd (onAiUiDetected pf tk msgPageUrl signals sens isAi sender s)))
          = []
      \<and> lastOpenMap (snd (onAiUiDetected pf tk msgPageUrl signals sens isAi sender s))
          = lastOpenMap s
      \<and> consentMap (snd (onAiUiDetected pf tk msgPageUrl signals sens isAi sender s))
          = consentMap s)
   \<and> (isHostInList (parseUrl pf) (hostFromUrl (parseUrl pf) (tab_url t)) (allowList p) \<longrightarrow>
      reevaluateTab pf (Some p) tk t s = s)"
  using allow_tab [of pf s p t tk tabId status]
    allow_ui [of s p pageUrl msgPageUrl sender pf tk signals sens isAi]
    allow_sweep [of pf t p tk s]
  by blast

theorem allowlist_short_circuit_witness:
  "tabMessages (tabsOnUpdated demoPlatform demoTick 8 ''complete'' allowedTab demoState) = []
   \<and> lastOpenMap (tabsOnUpdated demoPlatform demoTick 8 ''complete'' allowedTab demoState)
       = Map.empty
   \<and> reevaluateTab demoPlatform (Some strictProfile) demoTick allowedTab demoState = demoState
   \<and> fst (onAiUiDetected demoPlatform demoTick ''https://intranet.example.com/'' [''[data-ai]'']
           [''password'' \<mapsto> 1] (Some True) (Some allowedTab) demoState) = Suppressed"
proof -
  have hyp: "activeProfile (bootIfEmpty demoPlatform demoState) = Some strictProfile"
    "activeProfile demoState = Some strictProfile"
    "isHostInList (parseUrl demoPlatform)
          (hostFromUrl (parseUrl demoPlatform) (tab_url allowedTab)) (allowList strictProfile)"
    "isHostInList (parseUrl demoPlatform)
          (hostFromUrl (parseUrl demoPlatform) ''https://intranet.example.com/'')
          (allowList strictProfile)"
    by (simp_all add: demo_facts allowedTab_def)
  from hyp allowlist_short_circuit [of demoPlatform demoState strictProfile allowedTab demoTick 8
      "''complete''" "''https://intranet.example.com/''" "''https://intranet.example.com/''"
      "Some allowedTab" "[''[data-ai]'']" "[''password'' \<mapsto> 1]" "Some True"]
  show ?thesis
    by (simp add: demo_facts)
qed

section \<open>Prompt tracking\<close>

text \<open>
  C4, as the code has it. For every \<open>PROMPT_ACTIVITY\<close> message from an http(s) page,
  with a profile resolved, exactly one log entry of kind \<open>prompt\<close> is appended whatever
  the tracking mode. When the mode is \<open>off\<close> (or not set) the entry carries neither a
  digest nor the text, only the mode, the page URL and the length of the text. When the
  mode is \<open>anonymized\<close> the entry carries the digest of the text and never the text. The
  text (its first 2000 characters) is in the entry only when the mode is \<open>full\<close>.
\<close>

theorem promptActivity_log_content:
  "isHttpUrl (parseUrl pf) pageUrl
   \<and> pageUrl = (if msgTabUrl \<noteq> [] then msgTabUrl else senderTabUrl sender)
   \<and> activeProfile s = Some p \<longrightarrow>
   (\<exists>pl. newLogs s (snd (onPromptActivity pf tk promptText msgTabUrl sender s)) = [pl]
      \<and> entry_kind (entry pl) = ''prompt''
      \<and> (trackPrompts p = ''off'' \<or> trackPrompts p = [] \<longrightarrow>
           entry_hash (entry pl) = None \<and> entry_text (entry pl) = None)
      \<and> (trackPrompts p = ''anonymized'' \<longrightarrow>
           entry_text (entry pl) = None
           \<and> entry_hash (entry pl) = (if promptText = [] then None else Some (digest pf promptText)))
      \<and> (entry_text (entry pl) \<noteq> None \<longrightarrow> trackPrompts p = ''full'')
      \<and> (trackPrompts p = ''full'' \<longrightarrow>
           entry_hash (entry pl) = None
           \<and> entry_text (entry pl)
               = (if promptText = [] then None else Some (take 2000 promptText))))"
proof (intro impI, elim conjE)
  assume http: "isHttpUrl (parseUrl pf) pageUrl"
    and url: "pageUrl = (if msgTabUrl \<noteq> [] then msgTabUrl else senderTabUrl sender)"
    and prof: "activeProfile s = Some p"
  let ?mode = "if trackPrompts p = [] then ''off'' else trackPrompts p"
  let ?hash = "if ?mode = ''anonymized'' \<and> promptText \<noteq> [] then Some (digest pf promptText)
               else None"
  let ?raw = "if ?mode = ''anonymized'' \<and> promptText \<noteq> [] then None
              else if ?mode = ''full'' \<and> promptText \<noteq> [] then Some (take 2000 promptText)
              else None"
  let ?e = "PromptLog ?mode pageUrl (length promptText) ?hash ?raw"
  have run: "snd (onPromptActivity pf tk promptText msgTabUrl sender s)
      = appendLog pf (tk_logTime tk) ?e (refreshRules s)"
    using http prof
    by (simp add: onPromptActivity_def url [symmetric] activeProfile_def Let_def)
  obtain pl where pl: "entry pl = ?e"
    and logs: "stored_logs (appendLog pf (tk_logTime tk) ?e (refreshRules s))
      = stored_logs (refreshRules s) @ [pl]"
    using appendLog_logs by blast
  have new: "newLogs s (snd (onPromptActivity pf tk promptText msgTabUrl sender s)) = [pl]"
    by (simp add: run logs newLogs_def)
  show "\<exists>pl. newLogs s (snd (onPromptActivity pf tk promptText msgTabUrl sender s)) = [pl]
      \<and> entry_kind (entry pl) = ''prompt''
      \<and> (trackPrompts p = ''off'' \<or> trackPrompts p = [] \<longrightarrow>
           entry_hash (entry pl) = None \<and> entry_text (entry pl) = None)
      \<and> (trackPrompts p = ''anonymized'' \<longrightarrow>
           entry_text (entry pl) = None
           \<and> entry_hash (entry pl) = (if promptText = [] then None else Some (digest pf promptText)))
      \<and> (entry_text (entry pl) \<noteq> None \<longrightarrow> trackPrompts p = ''full'')
      \<and> (trackPrompts p = ''full'' \<longrightarrow>
           entry_hash (entry pl) = None
           \<and> entry_text (entry pl)
               = (if promptText = [] then None else Some (take 2000 promptText)))"
    by (rule exI [of _ pl]) (simp add: new pl split: if_splits)
qed

lemma demo_confirm:
  "activeProfile confirmState = Some confirmProfile"
  "stored_logs confirmState = []"
  "trackPrompts confirmProfile = ''off''"
  by (simp_all add: activeProfile_def refreshRules_def getActiveProfileSync_def confirmState_def
      confirmRules_def confirmProfile_def emptyState_def)

theorem promptActivity_log_content_witness:
  "map entry_hash (map entry (newLogs demoState (snd (onPromptActivity demoPlatform demoTick
      ''summarise the merger plan'' ''https://chat.example.com/'' (Some chatTab) demoState))))
     = [Some (demoDigest ''summarise the merger plan'')]
   \<and> map entry_text (map entry (newLogs demoState (snd (onPromptActivity demoPlatform demoTick
      ''summarise the merger plan'' ''https://chat.example.com/'' (Some chatTab) demoState))))
     = [None]"
proof -
  have "isHttpUrl (parseUrl demoPlatform) ''https://chat.example.com/''
      \<and> ''https://chat.example.com/''
          = (if ''https://chat.example.com/'' \<noteq> [] then ''https://chat.example.com/''
             else senderTabUrl (Some chatTab))
      \<and> activeProfile demoState = Some strictProfile"
    by (simp add: demo_facts)
  with promptActivity_log_content [of demoPlatform "''https://chat.example.com/''"
      "''https://chat.example.com/''" "Some chatTab" demoState strictProfile demoTick
      "''summarise the merger plan''"]
  show ?thesis
    by (auto simp: demo_facts)
qed

text \<open>
  The claim as stated fails: with the mode \<open>off\<close> an entry of kind \<open>prompt\<close> is appended
  all the same (without digest and without text).
\<close>

theorem promptActivity_off_counterexample:
  "trackPrompts confirmProfile = ''off''
   \<and> activeProfile confirmState = Some confirmProfile
   \<and> map entry_kind (map entry (newLogs confirmState (snd (onPromptActivity demoPlatform demoTick
        ''summarise the merger plan'' ''https://chat.example.com/'' (Some chatTab) confirmState))))
      = [''prompt'']"
  by (simp add: onPromptActivity_def refreshRules_def appendLog_def newLogs_def
      getActiveProfileSync_def confirmState_def confirmRules_def confirmProfile_def
      emptyState_def demo_chat_url demo_platform Let_def activeProfile_def)

section \<open>Consent windows\<close>

text \<open>
  C7. For a \<open>ROUTER_DECISION\<close> message whose sender has tab id \<open>tid\<close> and whose
  \<open>tabUrl\<close> has the non-empty host \<open>host\<close>: the consent map gets an entry for the key
  of \<open>(tid, host)\<close> exactly when the decision is \<open>proceed\<close>, and the entry expires at the
  decision time plus the TTL of ten minutes (600000 ms); any other decision (\<open>cancel\<close>,
  \<open>redirect\<close>) leaves the consent map as it was. After a \<open>proceed\<close>, admission for the
  key is refused at every time before the expiry, and at the expiry and at every later
  time admission is decided as if the key had no consent entry.
\<close>

theorem consent_window_iff_proceed:
  assumes "senderTabId sender = Some tid"
    and "hostFromUrl (parseUrl pf) tabUrl = host"
    and "host \<noteq> []"
  shows
    "(let s' = snd (onRouterDecision pf tk decision why tabUrl rsk profId pinVerified sender s) in
      (decision = ''proceed'' \<longrightarrow>
         consentMap s' = (consentMap s)(cacheKey tid host \<mapsto> tk_now tk + CONSENT_TTL_MS))
      \<and> (decision \<noteq> ''proceed'' \<longrightarrow> consentMap s' = consentMap s)
      \<and> CONSENT_TTL_MS = 600000
      \<and> (decision = ''proceed'' \<longrightarrow>
           (\<forall>t2. t2 < tk_now tk + CONSENT_TTL_MS \<longrightarrow>
              shouldOpenRouter t2 (Some tid) host s' = (False, s')))
      \<and> (decision = ''proceed'' \<longrightarrow>
           (\<forall>t2. tk_now tk + CONSENT_TTL_MS \<le> t2 \<longrightarrow>
              fst (shouldOpenRouter t2 (Some tid) host s')
                = fst (shouldOpenRouter t2 (Some tid) host
                         (s'\<lparr>consentMap := (consentMap s')(cacheKey tid host := None)\<rparr>)))))"
  using assms
  by (auto simp: onRouterDecision_def Let_def CONSENT_TTL_MS_def shouldOpenRouter_def
      consentActive_def)

theorem consent_window_iff_proceed_witness:
  "consentMap (snd (onRouterDecision demoPlatform demoTick ''proceed'' ''AI domain detected''
        ''https://chat.example.com/'' 40 ''strict'' False (Some chatTab) demoState))
      (cacheKey 9 ''chat.example.com'') = Some 1700000600000
   \<and> consentMap (snd (onRouterDecision demoPlatform demoTick ''cancel'' ''AI domain detected''
        ''https://chat.example.com/'' 40 ''strict'' False (Some chatTab) demoState))
      = Map.empty"
proof -
  have hyp: "senderTabId (Some chatTab) = Some 9"
    "hostFromUrl (parseUrl demoPlatform) ''https://chat.example.com/'' = ''chat.example.com''"
    "''chat.example.com'' \<noteq> []"
    by (simp_all add: senderTabId_def chatTab_def demo_facts)
  from consent_window_iff_proceed [OF hyp, of demoTick "''proceed''" "''AI domain detected''"
      40 "''strict''" False demoState]
    consent_window_iff_proceed [OF hyp, of demoTick "''cancel''" "''AI domain detected''"
      40 "''strict''" False demoState]
  show ?thesis
    by (simp add: Let_def demo_facts CONSENT_TTL_MS_def)
qed

section \<open>Invalidation on a policy change\<close>

lemma storageOnChanged_forgets:
  "storageOnChanged ''local'' (Some nv) (s\<lparr>lastOpenMap := m1, consentMap := m2\<rparr>)
     = storageOnChanged ''local'' (Some nv) s"
  by (cases nv) (simp_all add: storageOnChanged_def)

lemma storageOnChanged_clears:
  "lastOpenMap (storageOnChanged ''local'' (Some nv) s) = Map.empty"
  "consentMap (storageOnChanged ''local'' (Some nv) s) = Map.empty"
  by (simp_all add: storageOnChanged_def)

lemma broadcast_frame:
  "lastOpenMap (broadcastRulesUpdated pf tabs s) = lastOpenMap s
   \<and> consentMap (broadcastRulesUpdated pf tabs s) = consentMap s"
  unfolding broadcastRulesUpdated_def
  by (induction tabs arbitrary: s) (simp_all split: option.splits)

lemma shouldOpenRouter_lastOpen:
  "shouldOpenRouter n t h s = (b, s') \<Longrightarrow> lastOpenMap s' k = Some v \<Longrightarrow>
     lastOpenMap s k = Some v \<or> v = n"
  by (auto simp: shouldOpenRouter_def Let_def split: option.splits if_splits)

lemma reevaluateTab_consent:
  "consentMap (reevaluateTab pf prof tk t s) = consentMap s"
proof (cases "shouldOpenRouter (tk_now tk) (tab_id t) (hostFromUrl (parseUrl pf) (tab_url t)) s")
  case (Pair b s2)
  note fr = shouldOpenRouter_frame [OF Pair]
  show ?thesis
    using Pair fr
    by (cases b; cases "tab_id t"; cases prof)
       (simp_all add: reevaluateTab_def Let_def)
qed

lemma reevaluateTab_lastOpen:
  assumes "lastOpenMap (reevaluateTab pf prof tk t s) k = Some v"
  shows "lastOpenMap s k = Some v \<or> v = tk_now tk"
proof (cases "shouldOpenRouter (tk_now tk) (tab_id t) (hostFromUrl (parseUrl pf) (tab_url t)) s")
  case (Pair b s2)
  note lo = shouldOpenRouter_lastOpen [OF Pair, of k v]
  show ?thesis
    using assms Pair lo
    by (cases b; cases "tab_id t"; cases prof)
       (auto simp: reevaluateTab_def Let_def split: if_splits)
qed

lemma sweep_consent:
  "consentMap (foldl (\<lambda>st (tk, t). reevaluateTab pf prof tk t st) s tabs) = consentMap s"
  by (induction tabs arbitrary: s) (auto simp: reevaluateTab_consent)

lemma sweep_lastOpen:
  "lastOpenMap (foldl (\<lambda>st (tk, t). reevaluateTab pf prof tk t st) s tabs) k = Some v \<Longrightarrow>
     lastOpenMap s k = Some v \<or> (\<exists>tk t. (tk, t) \<in> set tabs \<and> v = tk_now tk)"
proof (induction tabs arbitrary: s)
  case Nil
  then show ?case by simp
next
  case (Cons x tabs)
  obtain tk t where x: "x = (tk, t)"
    by (cases x)
  from Cons.prems have "lastOpenMap (foldl (\<lambda>st (tk, t). reevaluateTab pf prof tk t st)
      (reevaluateTab pf prof tk t s) tabs) k = Some v"
    by (simp add: x)
  from Cons.IH [OF this] show ?case
    using reevaluateTab_lastOpen [of pf prof tk t s k v] x by auto
qed

text \<open>
  C8. When the listener is told that the stored \<open>rules\<close> changed (whatever the new
  value, a removed key included), it empties the last-open map and the consent map before
  it does anything else. The callback it schedules (the \<open>RULES_UPDATED\<close> broadcast, then
  the re-evaluation sweep, which is where the profile is read) starts from that cleared
  state, so the outcome does not depend on what the two maps held before the change: no
  consent entry exists after the sweep, and every last-open entry that exists after it
  was written by the sweep itself, with the time the sweep read for some tab.
\<close>

theorem policy_change_invalidates:
  "lastOpenMap (storageOnChanged ''local'' (Some newValue) s) = Map.empty
   \<and> consentMap (storageOnChanged ''local'' (Some newValue) s) = Map.empty
   \<and> onRulesChanged pf newValue tabs s
       = forceReevaluateAndPrompt pf tabs
           (broadcastRulesUpdated pf (map snd tabs) (storageOnChanged ''local'' (Some newValue) s))
   \<and> onRulesChanged pf newValue tabs (s\<lparr>lastOpenMap := m1, consentMap := m2\<rparr>)
       = onRulesChanged pf newValue tabs s
   \<and> consentMap (onRulesChanged pf newValue tabs s) = Map.empty
   \<and> (\<forall>k v. lastOpenMap (onRulesChanged pf newValue tabs s) k = Some v \<longrightarrow>
         (\<exists>tk t. (tk, t) \<in> set tabs \<and> v = tk_now tk))"
proof (intro conjI allI impI)
  show "lastOpenMap (storageOnChanged ''local'' (Some newValue) s) = Map.empty"
    "consentMap (storageOnChanged ''local'' (Some newValue) s) = Map.empty"
    by (simp_all add: storageOnChanged_clears)
  show "onRulesChanged pf newValue tabs s
       = forceReevaluateAndPrompt pf tabs
           (broadcastRulesUpdated pf (map snd tabs) (storageOnChanged ''local'' (Some newValue) s))"
    by (simp add: onRulesChanged_def rulesChangedCallback_def)
  show "onRulesChanged pf newValue tabs (s\<lparr>lastOpenMap := m1, consentMap := m2\<rparr>)
       = onRulesChanged pf newValue tabs s"
    by (simp add: onRulesChanged_def storageOnChanged_forgets)
  show "consentMap (onRulesChanged pf newValue tabs s) = Map.empty"
    by (simp add: onRulesChanged_def rulesChangedCallback_def forceReevaluateAndPrompt_def
        Let_def sweep_consent broadcast_frame storageOnChanged_clears)
  fix k v
  assume "lastOpenMap (onRulesChanged pf newValue tabs s) k = Some v"
  then have "lastOpenMap (refreshRules (broadcastRulesUpdated pf (map snd tabs)
        (storageOnChanged ''local'' (Some newValue) s))) k = Some v
      \<or> (\<exists>tk t. (tk, t) \<in> set tabs \<and> v = tk_now tk)"
    unfolding onRulesChanged_def rulesChangedCallback_def forceReevaluateAndPrompt_def Let_def
    by (rule sweep_lastOpen)
  then show "\<exists>tk t. (tk, t) \<in> set tabs \<and> v = tk_now tk"
    by (simp add: broadcast_frame storageOnChanged_clears)
qed

lemma demo_stale_cleared:
  "storageOnChanged ''local'' (Some (Some demoRules)) staleState
     = demoState\<lparr>rulesCache := Some demoRules\<rparr>"
  by (simp add: storageOnChanged_def staleState_def demoState_def emptyState_def)

lemma demo_broadcast:
  "broadcastRulesUpdated demoPlatform [chatTab] s = s\<lparr>tabMessages := tabMessages s @ [(9, RULES_UPDATED)]\<rparr>"
  by (simp add: broadcastRulesUpdated_def chatTab_def demo_facts)

lemma demo_chat_admit:
  "lastOpenMap s = Map.empty \<Longrightarrow> consentMap s = Map.empty \<Longrightarrow>
   shouldOpenRouter 1700000000000 (Some 9) ''chat.example.com'' s
     = (True, s\<lparr>lastOpenMap := [cacheKey 9 ''chat.example.com'' \<mapsto> 1700000000000]\<rparr>)"
  by (simp add: shouldOpenRouter_def consentActive_def js_or_def OPEN_COOLDOWN_MS_def)

lemma demo_chat_reevaluate:
  assumes "lastOpenMap s = Map.empty" "consentMap s = Map.empty"
    "aiDomainsCache s = [''example.com'']"
  shows "lastOpenMap (reevaluateTab demoPlatform (Some strictProfile) demoTick chatTab s)
     = [cacheKey 9 ''chat.example.com'' \<mapsto> 1700000000000]"
  using assms
  by (simp add: reevaluateTab_def isAiDomainHost_def shouldPromptForProfile_def
      demo_chat_admit chatTab_def demo_blocked_url demo_chat_url demo_strict demo_platform demo_tick Let_def)

lemma demo_stale_sweep:
  "lastOpenMap (onRulesChanged demoPlatform (Some demoRules) [(demoTick, chatTab)] staleState)
     (cacheKey 9 ''chat.example.com'') = Some 1700000000000"
proof -
  let ?s1 = "refreshRules (broadcastRulesUpdated demoPlatform [chatTab]
      (demoState\<lparr>rulesCache := Some demoRules\<rparr>))"
  have run: "onRulesChanged demoPlatform (Some demoRules) [(demoTick, chatTab)] staleState
      = reevaluateTab demoPlatform (Some strictProfile) demoTick chatTab ?s1"
    by (simp add: onRulesChanged_def rulesChangedCallback_def forceReevaluateAndPrompt_def
        demo_stale_cleared demo_broadcast refreshRules_def demo_state demo_profile Let_def)
  have "lastOpenMap ?s1 = Map.empty" "consentMap ?s1 = Map.empty"
    "aiDomainsCache ?s1 = [''example.com'']"
    by (simp_all add: demo_broadcast demo_state)
  then show ?thesis
    unfolding run by (simp add: demo_chat_reevaluate)
qed

theorem policy_change_invalidates_witness:
  "consentMap staleState (cacheKey 9 ''chat.example.com'') = Some 1700000500000
   \<and> lastOpenMap staleState (cacheKey 9 ''chat.example.com'') = Some 1699999999000
   \<and> consentMap (onRulesChanged demoPlatform (Some demoRules) [(demoTick, chatTab)] staleState)
       = Map.empty
   \<and> lastOpenMap (onRulesChanged demoPlatform (Some demoRules) [(demoTick, chatTab)] staleState)
       (cacheKey 9 ''chat.example.com'') = Some (tk_now demoTick)"
proof -
  note inv = policy_change_invalidates [of "Some demoRules" staleState demoPlatform
      "[(demoTick, chatTab)]"]
  from inv have fresh: "\<forall>k v. lastOpenMap
      (onRulesChanged demoPlatform (Some demoRules) [(demoTick, chatTab)] staleState) k = Some v \<longrightarrow>
      (\<exists>tk t. (tk, t) \<in> set [(demoTick, chatTab)] \<and> v = tk_now tk)"
    by blast
  from inv have noconsent:
    "consentMap (onRulesChanged demoPlatform (Some demoRules) [(demoTick, chatTab)] staleState)
       = Map.empty"
    by blast
  from fresh demo_stale_sweep have now: "(1700000000000::int) = tk_now demoTick"
    by auto
  have before: "consentMap staleState (cacheKey 9 ''chat.example.com'') = Some 1700000500000"
    "lastOpenMap staleState (cacheKey 9 ''chat.example.com'') = Some 1699999999000"
    by (simp_all add: staleState_def)
  from before noconsent demo_stale_sweep now show ?thesis
    by simp
qed

section \<open>The Router: Cancel and Proceed on a PIN-gated prompt\<close>

subsection \<open>The observer and the worker\<close>

lemma maybeSignal_suppressed:
  "suppress r \<Longrightarrow> maybeSignal t pg r = (r, [])"
  by (simp add: maybeSignal_def)

lemma maybeSignal_cases:
  "maybeSignal t pg r = (r, [])
   \<or> (\<exists>u sg f a. maybeSignal t pg r
         = (r\<lparr>lastSignalSentAt := t\<rparr>, [SendMessage (AI_UI_DETECTED u sg f a)]))"
  by (simp add: maybeSignal_def Let_def)

lemma observed_shape:
  "\<exists>r1 sent. observed t pg (r, es) = (r1, es @ sent)
     \<and> prompts r1 = prompts r \<and> shields r1 = shields r \<and> suppress r1 = suppress r
     \<and> list_all isSignal sent"
  using maybeSignal_cases [of t pg r]
  by (auto simp: observed_def)

lemma observed_suppressed:
  "suppress r \<Longrightarrow> observed t pg (r, es) = (r, es)"
  by (simp add: observed_def maybeSignal_suppressed)

lemma onAiUiDetected_consent:
  "consentMap (snd (onAiUiDetected pf tk u sg f a sender s)) = consentMap s"
proof -
  define pageUrl where "pageUrl = (if u \<noteq> [] then u else senderTabUrl sender)"
  obtain b s2 where sor: "shouldOpenRouter (tk_now tk)
           (Some (case senderTabId sender of None \<Rightarrow> - 1 | Some i \<Rightarrow> i))
           (hostFromUrl (parseUrl pf) pageUrl) (refreshRules s) = (b, s2)"
    by (cases "shouldOpenRouter (tk_now tk)
           (Some (case senderTabId sender of None \<Rightarrow> - 1 | Some i \<Rightarrow> i))
           (hostFromUrl (parseUrl pf) pageUrl) (refreshRules s)")
  note fr = shouldOpenRouter_frame [OF sor]
  show ?thesis
    using sor fr
    by (cases b; cases "senderTabId sender";
        cases "getActiveProfileSync (rulesCache (refreshRules s))")
       (simp_all add: onAiUiDetected_def pageUrl_def [symmetric] Let_def)
qed

lemma workerReceives_signals:
  "list_all isSignal es \<Longrightarrow> consentMap (workerReceives pf tk sender es s) = consentMap s"
proof (induction es arbitrary: s)
  case Nil
  then show ?case by simp
next
  case (Cons e es)
  from Cons.prems obtain u sg f a where e: "e = SendMessage (AI_UI_DETECTED u sg f a)"
    by (cases e rule: isSignal.cases) auto
  from Cons.prems have rest: "list_all isSignal es"
    by simp
  have "consentMap (snd (onMessage pf tk (AI_UI_DETECTED u sg f a) sender s)) = consentMap s"
    using onAiUiDetected_consent [of pf tk u sg f a sender s]
    by (simp add: onMessage_def case_prod_beta)
  with Cons.IH [OF rest] show ?case
    by (simp add: e)
qed

lemma workerReceives_no_message:
  "\<forall>e\<in>set es. \<forall>m. e \<noteq> SendMessage m \<Longrightarrow> workerReceives pf tk sender es s = s"
proof (induction es arbitrary: s)
  case Nil
  then show ?case by simp
next
  case (Cons e es)
  then show ?case by (cases e) auto
qed

lemma pinRequiredFor_nonzero_threshold:
  "riskThreshold p = Some th \<Longrightarrow> th \<noteq> 0 \<Longrightarrow> pinRequiredFor (Some p) rsk = specPinRequired p rsk"
  by (simp add: pinRequiredFor_def specPinRequired_def js_or_def)

text \<open>
  Cancel on a prompt whose \<open>pinRequired\<close> flag is set (the flag is set by the
  \<open>GET_PROFILE\<close> reply, and for a non-zero threshold exactly when the profile requires
  the PIN and the risk meets the threshold). The click leaves every prompt as it was, adds
  a blocking shield and lifts the suppression; the only messages it can cause are signals
  \<open>AI_UI_DETECTED\<close> of the mutation observer, never a decision, so the page stays
  blocked and the worker's consent map is as before. Return then removes a shield, again
  sends at most a signal, the prompt still covers the page, and the consent map is
  untouched.
\<close>

theorem cancel_in_pin_mode_shields:
  assumes at: "promptAt r i = Some pr" and pin: "pinRequired pr"
  shows "prompts (fst (clickCancel t pg stored i r)) = prompts r
     \<and> shields (fst (clickCancel t pg stored i r)) = Suc (shields r)
     \<and> \<not> suppress (fst (clickCancel t pg stored i r))
     \<and> list_all isSignal (snd (clickCancel t pg stored i r))
     \<and> pageBlocked (fst (clickCancel t pg stored i r))
     \<and> consentMap (workerReceives pf tk sender (snd (clickCancel t pg stored i r)) s)
         = consentMap s
     \<and> prompts (fst (clickReturn t2 pg (fst (clickCancel t pg stored i r)))) = prompts r
     \<and> list_all isSignal (snd (clickReturn t2 pg (fst (clickCancel t pg stored i r))))
     \<and> pageBlocked (fst (clickReturn t2 pg (fst (clickCancel t pg stored i r))))
     \<and> consentMap (workerReceives pf tk2 sender
           (snd (clickReturn t2 pg (fst (clickCancel t pg stored i r)))) s2) = consentMap s2"
proof -
  obtain r1 sent where c: "observed t pg (showBlockingShield r, []) = (r1, [] @ sent)"
    and r1: "prompts r1 = prompts (showBlockingShield r)"
      "shields r1 = shields (showBlockingShield r)"
      "suppress r1 = suppress (showBlockingShield r)"
    and sent: "list_all isSignal sent"
    using observed_shape [of t pg "showBlockingShield r" "[]"] by blast
  have run: "clickCancel t pg stored i r = (r1, sent)"
    using at pin c by (simp add: clickCancel_def)
  have st: "prompts r1 = prompts r" "shields r1 = Suc (shields r)" "\<not> suppress r1"
    using r1 by (simp_all add: showBlockingShield_def)
  from at have att: "list_ex attached (prompts r)"
    by (auto simp: promptAt_def list_ex_iff split: if_splits)
  obtain r2 sent2 where c2: "observed t2 pg (r1\<lparr>shields := shields r1 - 1\<rparr>, []) = (r2, [] @ sent2)"
    and r2: "prompts r2 = prompts (r1\<lparr>shields := shields r1 - 1\<rparr>)"
    and sent2: "list_all isSignal sent2"
    using observed_shape [of t2 pg "r1\<lparr>shields := shields r1 - 1\<rparr>" "[]"] by blast
  have ret: "clickReturn t2 pg r1 = (r2, sent2)"
    using st c2 by (simp add: clickReturn_def)
  show ?thesis
    using st sent att r2 sent2
    by (simp add: run ret pageBlocked_def workerReceives_signals)
qed

subsection \<open>Proceed\<close>

lemma sendDecision_messages:
  "SendMessage m \<in> set (snd (sendDecision pg stored choice pv pr r)) \<Longrightarrow>
     m = ROUTER_DECISION choice (shownReason pr) (href pg) (p_risk pr) (p_profileId pr) pv"
  unfolding sendDecision_def
  by (cases "addHostToLists (allowChecked pr) (blockChecked pr) (page_hostname pg) stored";
      cases "allowChecked pr \<or> blockChecked pr") auto

lemma sendDecision_first:
  "hd (snd (sendDecision pg stored choice pv pr r))
     = SendMessage (ROUTER_DECISION choice (shownReason pr) (href pg) (p_risk pr)
         (p_profileId pr) pv)"
  by (simp add: sendDecision_def)

lemma decision_then_close:
  "(case sendDecision pg stored c b pr r of
      (r1, effects) \<Rightarrow> observed t pg (closePrompt i r1, effects))
    = (closePrompt i (r\<lparr>suppress := True\<rparr>), snd (sendDecision pg stored c b pr r))"
  by (simp add: sendDecision_def closePrompt_def setPrompt_def observed_suppressed)

lemma clickProceed_pin:
  assumes "promptAt r i = Some pr" and "pinRequired pr"
  shows "clickProceed t pg stored i r =
     (if storedAdminPin stored = [] \<or> pinInput pr \<noteq> storedAdminPin stored
      then (r, [Alert ''Admin PIN required.''])
      else (closePrompt i (r\<lparr>suppress := True\<rparr>),
            snd (sendDecision pg stored ''proceed'' True pr r)))"
  using assms by (simp add: clickProceed_def Let_def decision_then_close)

lemma closePrompt_suppress:
  "suppress (closePrompt i r) = suppress r"
  by (simp add: closePrompt_def setPrompt_def)

lemma observed_after_close:
  "observed t pg (closePrompt i (r\<lparr>suppress := True\<rparr>), es)
     = (closePrompt i (r\<lparr>suppress := True\<rparr>), es)"
  by (rule observed_suppressed) (simp add: closePrompt_suppress)

lemma closePrompt_detaches:
  "promptAt (closePrompt i r) i = None"
  by (simp add: closePrompt_def setPrompt_def promptAt_def)

text \<open>
  Proceed on a prompt whose \<open>pinRequired\<close> flag is set. With a typed PIN that differs
  from the stored admin PIN the click leaves the Router as it was (the prompt stays
  open), shows the alert \<open>Admin PIN required.\<close> and sends nothing, so the worker's state,
  the consent map included, stays as it was. Whenever the click does send a message, the
  typed PIN equals the stored one and the message is the decision \<open>proceed\<close> with
  \<open>pinVerified\<close> true; and with a typed PIN equal to a stored, non-empty admin PIN the
  click sends that decision first and closes the prompt.
\<close>

theorem proceed_in_pin_mode_requires_pin:
  assumes at: "promptAt r i = Some pr" and pin: "pinRequired pr"
  shows "(pinInput pr \<noteq> storedAdminPin stored \<longrightarrow>
            clickProceed t pg stored i r = (r, [Alert ''Admin PIN required.''])
            \<and> workerReceives pf tk sender (snd (clickProceed t pg stored i r)) s = s)
     \<and> (\<forall>m. SendMessage m \<in> set (snd (clickProceed t pg stored i r)) \<longrightarrow>
            pinInput pr = storedAdminPin stored
            \<and> m = ROUTER_DECISION ''proceed'' (shownReason pr) (href pg) (p_risk pr)
                  (p_profileId pr) True)
     \<and> (pinInput pr = storedAdminPin stored \<and> storedAdminPin stored \<noteq> [] \<longrightarrow>
            promptAt (fst (clickProceed t pg stored i r)) i = None
            \<and> hd (snd (clickProceed t pg stored i r))
                = SendMessage (ROUTER_DECISION ''proceed'' (shownReason pr) (href pg) (p_risk pr)
                    (p_profileId pr) True))"
proof (cases "storedAdminPin stored = [] \<or> pinInput pr \<noteq> storedAdminPin stored")
  case True
  then have "clickProceed t pg stored i r = (r, [Alert ''Admin PIN required.''])"
    using clickProceed_pin [OF at pin] by simp
  with True show ?thesis
    by auto
next
  case False
  then have run: "clickProceed t pg stored i r =
      (closePrompt i (r\<lparr>suppress := True\<rparr>),
       snd (sendDecision pg stored ''proceed'' True pr r))"
    using clickProceed_pin [OF at pin] by simp
  show ?thesis
    using False sendDecision_messages [of _ pg stored "''proceed''" True pr r]
    by (auto simp: run sendDecision_first closePrompt_detaches)
qed

lemma pinPrompt_state:
  "promptAt (pinPrompt typed) 0
     = Some \<lparr>attached = True, pinRequired = True, p_reason = ''In-app AI detected'',
             p_risk = 85, p_profileId = ''strict'', pinInput = typed, allowChecked = False,
             blockChecked = False\<rparr>"
  "prompts (pinPrompt typed)
     = [\<lparr>attached = True, pinRequired = True, p_reason = ''In-app AI detected'',
         p_risk = 85, p_profileId = ''strict'', pinInput = typed, allowChecked = False,
         blockChecked = False\<rparr>]"
  "shields (pinPrompt typed) = 0"
  by (simp_all add: pinPrompt_def typePin_def promptAt_def setPrompt_def onProfileReply_def
      pinRequiredFor_def onOpenRouter_def observed_def maybeSignal_def newPrompt_def
      closedRouter_def directive85_def strictProfile_def js_or_def)

lemma zeroPrompt_state:
  "promptAt (zeroPrompt typed) 0
     = Some \<lparr>attached = True, pinRequired = False, p_reason = ''AI domain detected'',
             p_risk = 50, p_profileId = ''strict'', pinInput = typed, allowChecked = False,
             blockChecked = False\<rparr>"
  "prompts (zeroPrompt typed)
     = [\<lparr>attached = True, pinRequired = False, p_reason = ''AI domain detected'',
         p_risk = 50, p_profileId = ''strict'', pinInput = typed, allowChecked = False,
         blockChecked = False\<rparr>]"
  "shields (zeroPrompt typed) = 0"
  "suppress (zeroPrompt typed)"
  by (simp_all add: zeroPrompt_def typePin_def promptAt_def setPrompt_def onProfileReply_def
      pinRequiredFor_def onOpenRouter_def observed_def maybeSignal_def newPrompt_def
      closedRouter_def directive50_def zeroThresholdProfile_def strictProfile_def js_or_def)

text \<open>
  The same on the example prompt of the strict profile with the stored PIN \<open>1234\<close>:
  the typed PIN \<open>0000\<close> is refused and the page stays blocked, the typed PIN \<open>1234\<close>
  sends the verified decision and closes the prompt.
\<close>

theorem proceed_in_pin_mode_requires_pin_witness:
  "clickProceed 1700000002000 chatPage (Some demoRules) 0 (pinPrompt ''0000'')
     = (pinPrompt ''0000'', [Alert ''Admin PIN required.''])
   \<and> pageBlocked (pinPrompt ''0000'')
   \<and> hd (snd (clickProceed 1700000002000 chatPage (Some demoRules) 0 (pinPrompt ''1234'')))
       = SendMessage (ROUTER_DECISION ''proceed'' ''In-app AI detected''
           ''https://chat.example.com/'' 85 ''strict'' True)
   \<and> promptAt (fst (clickProceed 1700000002000 chatPage (Some demoRules) 0 (pinPrompt ''1234''))) 0
       = None"
proof -
  have pin: "storedAdminPin (Some demoRules) = ''1234''"
    by (simp add: storedAdminPin_def demoRules_def)
  have blocked: "pageBlocked (pinPrompt ''0000'')"
    by (simp add: pageBlocked_def pinPrompt_state)
  from proceed_in_pin_mode_requires_pin [OF pinPrompt_state(1), of "''0000''" "Some demoRules"
      1700000002000 chatPage demoPlatform demoTick None demoState]
    proceed_in_pin_mode_requires_pin [OF pinPrompt_state(1), of "''1234''" "Some demoRules"
      1700000002000 chatPage demoPlatform demoTick None demoState]
  show ?thesis
    by (simp add: pin blocked shownReason_def chatPage_def)
qed

text \<open>
  The same on the example prompt of the strict profile (threshold 70, risk 85), where the
  flag of the code and PIN-required mode in the specification's words agree.
\<close>

theorem cancel_in_pin_mode_shields_witness:
  "pinRequiredFor (Some strictProfile) 85 = specPinRequired strictProfile 85
   \<and> specPinRequired strictProfile 85
   \<and> shields (fst (clickCancel 1700000005000 chatPage (Some demoRules) 0 (pinPrompt []))) = 1
   \<and> list_all isSignal (snd (clickCancel 1700000005000 chatPage (Some demoRules) 0 (pinPrompt [])))
   \<and> pageBlocked (fst (clickReturn 1700000006000 chatPage
         (fst (clickCancel 1700000005000 chatPage (Some demoRules) 0 (pinPrompt [])))))"
proof -
  have flag: "pinRequired \<lparr>attached = True, pinRequired = True,
      p_reason = ''In-app AI detected'', p_risk = 85, p_profileId = ''strict'', pinInput = [],
      allowChecked = False, blockChecked = False\<rparr>"
    by simp
  note shield = cancel_in_pin_mode_shields [OF pinPrompt_state(1) flag, of 1700000005000 chatPage
      "Some demoRules" demoPlatform demoTick None demoState 1700000006000 demoTick demoState]
  have "pinRequiredFor (Some strictProfile) 85 = specPinRequired strictProfile 85"
    "specPinRequired strictProfile 85"
    by (simp_all add: pinRequiredFor_def specPinRequired_def strictProfile_def js_or_def)
  with shield show ?thesis
    by (simp add: pinPrompt_state)
qed

section \<open>The Router at the threshold 0\<close>

text \<open>
  C1, at an input where the code departs from it. The profile requires the PIN and has
  the threshold 0, the delivered risk is 50 and so meets the threshold; but the
  \<open>GET_PROFILE\<close> callback compares the risk with \<open>riskThreshold || 100\<close>, which is 100
  for the threshold 0, and leaves the prompt's \<open>pinRequired\<close> false. Cancel then reports
  the decision \<open>cancel\<close> and closes the prompt without any shield: the page is unblocked.
\<close>

theorem cancel_zero_threshold_closes_prompt:
  "specPinRequired zeroThresholdProfile (d_risk directive50)
   \<and> map pinRequired (prompts (zeroPrompt [])) = [False]
   \<and> snd (clickCancel 1700000002000 chatPage (Some zeroThresholdRules) 0 (zeroPrompt []))
       = [SendMessage (ROUTER_DECISION ''cancel'' ''AI domain detected''
            ''https://chat.example.com/'' 50 ''strict'' False)]
   \<and> shields (fst (clickCancel 1700000002000 chatPage (Some zeroThresholdRules) 0
         (zeroPrompt []))) = 0
   \<and> \<not> pageBlocked (fst (clickCancel 1700000002000 chatPage (Some zeroThresholdRules) 0
         (zeroPrompt [])))"
proof -
  have mode: "specPinRequired zeroThresholdProfile (d_risk directive50)"
    "map pinRequired (prompts (zeroPrompt [])) = [False]"
    by (simp_all add: specPinRequired_def zeroThresholdProfile_def strictProfile_def
        directive50_def zeroPrompt_state)
  have run: "clickCancel 1700000002000 chatPage (Some zeroThresholdRules) 0 (zeroPrompt [])
      = (closePrompt 0 ((zeroPrompt [])\<lparr>suppress := True\<rparr>),
         [SendMessage (ROUTER_DECISION ''cancel'' ''AI domain detected''
            ''https://chat.example.com/'' 50 ''strict'' False)])"
    by (simp add: clickCancel_def zeroPrompt_state observed_after_close sendDecision_def
        shownReason_def chatPage_def)
  have closed: "prompts (closePrompt 0 ((zeroPrompt [])\<lparr>suppress := True\<rparr>))
      = [\<lparr>attached = False, pinRequired = False, p_reason = ''AI domain detected'',
          p_risk = 50, p_profileId = ''strict'', pinInput = [], allowChecked = False,
          blockChecked = False\<rparr>]"
    "shields (closePrompt 0 ((zeroPrompt [])\<lparr>suppress := True\<rparr>)) = 0"
    by (simp_all add: closePrompt_def setPrompt_def zeroPrompt_state)
  from mode closed show ?thesis
    by (simp add: run pageBlocked_def)
qed

text \<open>
  C9, at an input where the code departs from it. The same profile with the threshold 0
  and the delivered risk 50: PIN-required mode is active in the specification's words,
  the stored admin PIN is \<open>1234\<close> and the typed PIN is \<open>0000\<close>. As the prompt's
  \<open>pinRequired\<close> is false, Proceed does not compare the PINs: it reports the decision
  \<open>proceed\<close> with \<open>pinVerified\<close> false and closes the prompt, the page is unblocked,
  and the worker that receives the decision opens a consent window for the tab and host.
\<close>

theorem proceed_zero_threshold_wrong_pin_proceeds:
  "specPinRequired zeroThresholdProfile (d_risk directive50)
   \<and> map pinRequired (prompts (zeroPrompt ''0000'')) = [False]
   \<and> storedAdminPin (Some zeroThresholdRules) = ''1234''
   \<and> snd (clickProceed 1700000002000 chatPage (Some zeroThresholdRules) 0 (zeroPrompt ''0000''))
       = [SendMessage (ROUTER_DECISION ''proceed'' ''AI domain detected''
            ''https://chat.example.com/'' 50 ''strict'' False)]
   \<and> \<not> pageBlocked (fst (clickProceed 1700000002000 chatPage (Some zeroThresholdRules) 0
         (zeroPrompt ''0000'')))
   \<and> consentMap (workerReceives demoPlatform demoTick (Some chatTab)
         (snd (clickProceed 1700000002000 chatPage (Some zeroThresholdRules) 0
            (zeroPrompt ''0000''))) demoState) (cacheKey 9 ''chat.example.com'')
       = Some 1700000600000"
proof -
  have mode: "specPinRequired zeroThresholdProfile (d_risk directive50)"
    "map pinRequired (prompts (zeroPrompt ''0000'')) = [False]"
    "storedAdminPin (Some zeroThresholdRules) = ''1234''"
    by (simp_all add: specPinRequired_def zeroThresholdProfile_def strictProfile_def
        directive50_def storedAdminPin_def zeroThresholdRules_def zeroPrompt_state)
  have run: "clickProceed 1700000002000 chatPage (Some zeroThresholdRules) 0 (zeroPrompt ''0000'')
      = (closePrompt 0 ((zeroPrompt ''0000'')\<lparr>suppress := True\<rparr>),
         [SendMessage (ROUTER_DECISION ''proceed'' ''AI domain detected''
            ''https://chat.example.com/'' 50 ''strict'' False)])"
    by (simp add: clickProceed_def zeroPrompt_state observed_after_close sendDecision_def
        shownReason_def chatPage_def)
  have closed: "prompts (closePrompt 0 ((zeroPrompt ''0000'')\<lparr>suppress := True\<rparr>))
      = [\<lparr>attached = False, pinRequired = False, p_reason = ''AI domain detected'',
          p_risk = 50, p_profileId = ''strict'', pinInput = ''0000'', allowChecked = False,
          blockChecked = False\<rparr>]"
    "shields (closePrompt 0 ((zeroPrompt ''0000'')\<lparr>suppress := True\<rparr>)) = 0"
    by (simp_all add: closePrompt_def setPrompt_def zeroPrompt_state)
  have worker: "consentMap (workerReceives demoPlatform demoTick (Some chatTab)
         [SendMessage (ROUTER_DECISION ''proceed'' ''AI domain detected''
            ''https://chat.example.com/'' 50 ''strict'' False)] demoState)
         (cacheKey 9 ''chat.example.com'') = Some 1700000600000"
    by (simp add: onMessage_def onRouterDecision_def senderTabId_def chatTab_def
        CONSENT_TTL_MS_def demo_facts Let_def)
  from mode closed worker show ?thesis
    by (simp add: run pageBlocked_def)
qed

end
